theory Spec2Isabelle
  imports Main "HOL-Library.Sublist"
begin

section \<open>JavaScript values\<close>

text \<open>
  The values the request-context code handles. Objects that the code identifies by
  reference (the path-parameter mapping of the request, the context object the
  configurator returns) live in a store and are denoted by \<open>JRef\<close>; two references are
  the very same object iff their addresses are equal. Objects that the code builds
  itself (the field-path object of a pipeline, the output of a schema) are written inline
  as \<open>JObj\<close> with their own properties in insertion order, arrays as \<open>JArr\<close>.
  \<open>JFile\<close> is a File entry of a FormData, \<open>JNative\<close> a built-in function that every
  object inherits from \<open>Object.prototype\<close>.
\<close>

type_synonym addr = nat

datatype jsval =
    JUndefined
  | JNull
  | JBool bool
  | JNum int
  | JStr string
  | JFile string
  | JNative string
  | JArr "jsval list"
  | JObj "(string \<times> jsval) list"
  | JRef addr

datatype jserror = Error string | TypeError string | Thrown jsval

text \<open>\<open>Array.isArray\<close>, and react-hook-form's \<open>isObject\<close> (a non-null, non-array value
  whose \<open>typeof\<close> is \<open>'object'\<close>) and \<open>isNullOrUndefined\<close>.\<close>

fun isArray :: "jsval \<Rightarrow> bool" where
  "isArray (JArr xs) = True"
| "isArray v = False"

fun isObject :: "jsval \<Rightarrow> bool" where
  "isObject (JObj fs) = True"
| "isObject (JRef a) = True"
| "isObject (JFile n) = True"
| "isObject v = False"

fun isNullOrUndefined :: "jsval \<Rightarrow> bool" where
  "isNullOrUndefined JUndefined = True"
| "isNullOrUndefined JNull = True"
| "isNullOrUndefined v = False"

fun isString :: "jsval \<Rightarrow> bool" where
  "isString (JStr s) = True"
| "isString v = False"

subsection \<open>Property access on inline values\<close>

text \<open>The members that a plain object inherits from \<open>Object.prototype\<close>: reading one of
  these names from an object that has no own property of that name yields a built-in,
  not \<open>undefined\<close>.\<close>

definition object_prototype_names :: "string list" where
  "object_prototype_names =
     [''constructor'', ''__proto__'', ''hasOwnProperty'', ''isPrototypeOf'',
      ''propertyIsEnumerable'', ''toLocaleString'', ''toString'', ''valueOf'',
      ''__defineGetter__'', ''__defineSetter__'', ''__lookupGetter__'',
      ''__lookupSetter__'']"

definition inherited :: "string \<Rightarrow> jsval" where
  "inherited k = (if k \<in> set object_prototype_names then JNative k else JUndefined)"

definition is_digit :: "char \<Rightarrow> bool" where
  "is_digit c = (c \<in> set ''0123456789'')"

definition digits_value :: "string \<Rightarrow> nat" where
  "digits_value s = foldl (\<lambda>n c. 10 * n + (of_char c - 48)) 0 s"

text \<open>A canonical array index: \<open>"0"\<close>, or decimal digits without a leading zero.\<close>

definition array_index :: "string \<Rightarrow> nat option" where
  "array_index k =
     (if k = ''0'' then Some 0
      else if k \<noteq> [] \<and> hd k \<noteq> CHR ''0'' \<and> list_all is_digit k then Some (digits_value k)
      else None)"

text \<open>\<open>v[k]\<close> for a value that is not null or undefined. Own properties of objects,
  elements and \<open>length\<close> of arrays and strings, and the members of \<open>Object.prototype\<close>
  are represented; the methods of \<open>Array.prototype\<close> and \<open>String.prototype\<close> are not.\<close>

fun js_prop :: "jsval \<Rightarrow> string \<Rightarrow> jsval" where
  "js_prop (JObj fs) k = (case map_of fs k of Some v \<Rightarrow> v | None \<Rightarrow> inherited k)"
| "js_prop (JArr xs) k =
     (case array_index k of
        Some i \<Rightarrow> if i < length xs then xs ! i else JUndefined
      | None \<Rightarrow> if k = ''length'' then JNum (int (length xs)) else inherited k)"
| "js_prop (JStr s) k =
     (case array_index k of
        Some i \<Rightarrow> if i < length s then JStr [s ! i] else JUndefined
      | None \<Rightarrow> if k = ''length'' then JNum (int (length s)) else inherited k)"
| "js_prop JUndefined k = JUndefined"
| "js_prop JNull k = JUndefined"
| "js_prop v k = inherited k"

text \<open>An own property is replaced where it stands, a new one is added at the end.
  (JavaScript enumerates integer-like keys before the others; that order is not
  represented.)\<close>

fun put_field :: "('k \<times> 'v) list \<Rightarrow> 'k \<Rightarrow> 'v \<Rightarrow> ('k \<times> 'v) list" where
  "put_field [] k v = [(k, v)]"
| "put_field ((k', v') # fs) k v =
     (if k' = k then (k, v) # fs else (k', v') # put_field fs k v)"

text \<open>\<open>object[key] = v\<close> on a plain object or an array, giving the object after the
  assignment. An array grows to hold the index (the holes read as \<open>undefined\<close>); a
  non-index property of an array is not represented and the array stays as it is.\<close>

fun js_assign :: "jsval \<Rightarrow> string \<Rightarrow> jsval \<Rightarrow> jsval" where
  "js_assign (JObj fs) k v = JObj (put_field fs k v)"
| "js_assign (JArr xs) k v =
     (case array_index k of
        Some i \<Rightarrow>
          if i < length xs then JArr (xs[i := v])
          else JArr (xs @ replicate (i - length xs) JUndefined @ [v])
      | None \<Rightarrow> JArr xs)"
| "js_assign object k v = object"

subsection \<open>String helpers: \<open>split\<close>, \<open>Number\<close>\<close>

text \<open>\<open>String.prototype.split\<close> with a separator that matches single characters.\<close>

fun split_on :: "(char \<Rightarrow> bool) \<Rightarrow> string \<Rightarrow> string list" where
  "split_on sep [] = [[]]"
| "split_on sep (c # cs) =
     (if sep c then [] # split_on sep cs
      else (case split_on sep cs of
              x # xs \<Rightarrow> (c # x) # xs
            | [] \<Rightarrow> [[c]]))"

text \<open>react-hook-form's \<open>compact\<close>: the truthy members, here the non-empty strings.\<close>

definition compact :: "string list \<Rightarrow> string list" where
  "compact xs = filter (\<lambda>s. s \<noteq> []) xs"

definition is_space :: "char \<Rightarrow> bool" where
  "is_space c = (c \<in> {CHR '' '', CHR 0x09, CHR 0x0A, CHR 0x0B, CHR 0x0C, CHR 0x0D})"

definition trim :: "string \<Rightarrow> string" where
  "trim s = rev (dropWhile is_space (rev (dropWhile is_space s)))"

definition all_in :: "string \<Rightarrow> string \<Rightarrow> bool" where
  "all_in alphabet s = (s \<noteq> [] \<and> list_all (\<lambda>c. c \<in> set alphabet) s)"

text \<open>An exponent part \<open>e\<close>, \<open>e+\<close>, \<open>e-\<close> followed by digits, or nothing.\<close>

fun exponent_ok :: "string \<Rightarrow> bool" where
  "exponent_ok [] = True"
| "exponent_ok (c # cs) =
     ((c = CHR ''e'' \<or> c = CHR ''E'') \<and>
      (case cs of
         [] \<Rightarrow> False
       | d # ds \<Rightarrow> if d = CHR ''+'' \<or> d = CHR ''-'' then all_in ''0123456789'' ds
                  else all_in ''0123456789'' cs))"

definition decimal_ok :: "string \<Rightarrow> bool" where
  "decimal_ok s =
     (let ip = takeWhile is_digit s; r = dropWhile is_digit s in
      case r of
        c # r' \<Rightarrow>
          if c = CHR ''.'' then
            (let fp = takeWhile is_digit r'; r'' = dropWhile is_digit r' in
             (ip \<noteq> [] \<or> fp \<noteq> []) \<and> exponent_ok r'')
          else ip \<noteq> [] \<and> exponent_ok r
      | [] \<Rightarrow> ip \<noteq> [])"

definition unsigned_ok :: "string \<Rightarrow> bool" where
  "unsigned_ok s = (s = ''Infinity'' \<or> decimal_ok s)"

text \<open>\<open>!isNaN(+s)\<close>: whether \<open>Number(s)\<close> is a number. Blank strings convert to 0.\<close>

definition js_is_numeric :: "string \<Rightarrow> bool" where
  "js_is_numeric s =
     (let t = trim s in
      case t of
        [] \<Rightarrow> True
      | c # cs \<Rightarrow>
          if c = CHR ''+'' \<or> c = CHR ''-'' then unsigned_ok cs
          else if c = CHR ''0'' \<and> cs \<noteq> [] \<and> hd cs \<in> set ''xX''
            then all_in ''0123456789abcdefABCDEF'' (tl cs)
          else if c = CHR ''0'' \<and> cs \<noteq> [] \<and> hd cs \<in> set ''oO''
            then all_in ''01234567'' (tl cs)
          else if c = CHR ''0'' \<and> cs \<noteq> [] \<and> hd cs \<in> set ''bB''
            then all_in ''01'' (tl cs)
          else unsigned_ok t)"

section \<open>The field-path utilities \<open>set\<close> and \<open>get\<close> of react-hook-form\<close>

text \<open>
  \<open>utils.ts\<close> and \<open>factory.ts\<close> import \<open>get\<close> and \<open>set\<close> from react-hook-form (^7.45.2).
  They are modelled after the library:
  \<^item> \<open>isKey(value)\<close> tests \<open>/^\w*$/\<close>;
  \<^item> \<open>stringToPath(input)\<close> is
    \<open>compact(input.replace(/["|']|\]/g, '').split(/\.|\[/))\<close>;
  \<^item> \<open>set(object, path, value)\<close> walks \<open>isKey(path) ? [path] : stringToPath(path)\<close>; at
    every segment but the last it keeps \<open>object[key]\<close> when that is an object or an
    array and otherwise stores a fresh \<open>[]\<close> (when the next segment is numeric) or \<open>{}\<close>,
    and at the last segment it stores the value;
  \<^item> \<open>get(object, path, defaultValue)\<close> returns the default for an empty path or a
    non-object, reads \<open>compact(path.split(/[,[\].]+?/))\<close> segment by segment (stopping at
    null or undefined), and when that gives \<open>undefined\<close> or the object itself falls back
    to the property named by the whole path.
\<close>

definition is_word_char :: "char \<Rightarrow> bool" where
  "is_word_char c =
     (c \<in> set ''abcdefghijklmnopqrstuvwxyzABCDEFGHIJKLMNOPQRSTUVWXYZ0123456789_'')"

definition isKey :: "string \<Rightarrow> bool" where
  "isKey v = list_all is_word_char v"

definition stringToPath :: "string \<Rightarrow> string list" where
  "stringToPath input =
     compact (split_on (\<lambda>c. c = CHR ''.'' \<or> c = CHR ''['')
       (filter (\<lambda>c. c \<notin> {CHR 0x22, CHR ''|'', CHR 0x27, CHR '']''}) input))"

text \<open>The loop of \<open>set\<close>. The child stored under \<open>key\<close> is the object the next round
  mutates, so the parent ends up holding the mutated child.\<close>

fun set_loop :: "jsval \<Rightarrow> string list \<Rightarrow> jsval \<Rightarrow> jsval" where
  "set_loop object [] v = object"
| "set_loop object [key] v = js_assign object key v"
| "set_loop object (key # nxt # rest) v =
     (let objValue = js_prop object key;
          newValue =
            (if isObject objValue \<or> isArray objValue then objValue
             else if js_is_numeric nxt then JArr []
             else JObj [])
      in js_assign object key (set_loop newValue (nxt # rest) v))"

definition rhf_set :: "jsval \<Rightarrow> string \<Rightarrow> jsval \<Rightarrow> jsval" where
  "rhf_set object path v =
     set_loop object (if isKey path then [path] else stringToPath path) v"

definition get_segments :: "string \<Rightarrow> string list" where
  "get_segments path =
     compact (split_on (\<lambda>c. c \<in> {CHR '','', CHR ''['', CHR '']'', CHR ''.''}) path)"

text \<open>The \<open>reduce\<close> of \<open>get\<close>: once the result is null or undefined it stays so.\<close>

fun read_path :: "jsval \<Rightarrow> string list \<Rightarrow> jsval" where
  "read_path r [] = r"
| "read_path r (key # keys) =
     (if isNullOrUndefined r then r else read_path (js_prop r key) keys)"

definition rhf_get :: "jsval \<Rightarrow> string \<Rightarrow> jsval \<Rightarrow> jsval" where
  "rhf_get obj path defaultValue =
     (if path = [] \<or> \<not> isObject obj then defaultValue
      else
        (let result = read_path obj (get_segments path) in
         if result = JUndefined \<or> result = obj
         then (if js_prop obj path = JUndefined then defaultValue else js_prop obj path)
         else result))"

text \<open>Where in \<open>obj\<close> the value that \<open>get\<close> returned is stored: under the segments, or
  under the whole path as one property name.\<close>

definition get_location :: "jsval \<Rightarrow> string \<Rightarrow> string list" where
  "get_location obj path =
     (let result = read_path obj (get_segments path) in
      if result = JUndefined \<or> result = obj then [path] else get_segments path)"

text \<open>\<open>check.push(value)\<close> on the array \<open>check\<close> that is stored in \<open>obj\<close> at a location:
  the array is mutated in place, so \<open>obj\<close> holds the longer array afterwards. The
  object under construction is a tree here: one array or object reachable at two places
  of it, which takes a path that \<open>get\<close> and \<open>set\<close> resolve differently, is not
  represented.\<close>

fun push_at :: "jsval \<Rightarrow> string list \<Rightarrow> jsval \<Rightarrow> jsval" where
  "push_at (JArr xs) [] v = JArr (xs @ [v])"
| "push_at object [] v = object"
| "push_at object (key # keys) v = js_assign object key (push_at (js_prop object key) keys v)"

section \<open>The store, the trace and the functions supplied by the caller\<close>

text \<open>
  A stored object is its own properties in insertion order. A property is a data
  property, or an accessor with a getter and no setter (a lazily computed property):
  \<open>Accessor g v\<close> is the getter number \<open>g\<close>, so that its evaluations can be told apart
  in the trace, and the value \<open>v\<close> it computes.
\<close>

datatype jsprop = Data jsval | Accessor nat jsval

type_synonym heap = "addr \<Rightarrow> (string \<times> jsprop) list"

text \<open>
  The validation engine is a collaborator: \<open>schema.safeParse(value)\<close> never throws and
  gives the validated data or a structured error.
\<close>

datatype zod_error = ZodError "string list"

type_synonym zschema = "heap \<Rightarrow> jsval \<Rightarrow> zod_error + jsval"

text \<open>
  A function supplied by the caller (configurator, schema thunk, error hook, form-data
  extractor, the body reader of the request) may change the store, and returns a value
  or throws; for an asynchronous one, throwing stands for a rejected promise too.
\<close>

type_synonym 'a callback = "heap \<Rightarrow> (jserror + 'a) \<times> heap"

text \<open>A FormData: its entries in order, each value a string or a file.\<close>

type_synonym formdata = "(string \<times> jsval) list"

text \<open>
  Of a request the code uses \<open>new URL(request.url).searchParams.entries()\<close>, which
  throws on an invalid URL and otherwise yields the decoded entries in URL order, and
  \<open>request.formData()\<close>.
\<close>

record Request =
  searchParams :: "jserror + (string \<times> string) list"
  formData :: "formdata callback"

record DataFunctionArgs =
  request :: Request
  params :: jsval

datatype pipeline = FormPipeline | ParamsPipeline | QueryStringPipeline

text \<open>The trace records every call the code makes to a collaborator, in order, with
  the arguments it passes.\<close>

datatype event =
    ConfiguratorCalled
  | SchemaThunkCalled
  | FormDataParserCalled addr DataFunctionArgs
  | RequestFormDataCalled
  | SafeParseCalled pipeline jsval
  | OnParseErrorCalled pipeline zod_error addr DataFunctionArgs
  | GetterEvaluated nat

record state =
  heap :: heap
  trace :: "event list"

definition call :: "event \<Rightarrow> 'a callback \<Rightarrow> state \<Rightarrow> (jserror + 'a) \<times> state" where
  "call ev f st =
     (case f (heap st) of (r, h) \<Rightarrow> (r, \<lparr>heap = h, trace = trace st @ [ev]\<rparr>))"

definition log :: "event \<Rightarrow> state \<Rightarrow> state" where
  "log ev st = st\<lparr>trace := trace st @ [ev]\<rparr>"

text \<open>\<open>await m\<close> and then continue: a thrown error or a rejection ends the function.\<close>

definition await ::
  "(state \<Rightarrow> (jserror + 'a) \<times> state) \<Rightarrow> ('a \<Rightarrow> state \<Rightarrow> (jserror + 'b) \<times> state) \<Rightarrow>
   state \<Rightarrow> (jserror + 'b) \<times> state" where
  "await m f st = (case m st of (Inl e, st') \<Rightarrow> (Inl e, st') | (Inr x, st') \<Rightarrow> f x st')"

type_synonym onParseError = "zod_error \<Rightarrow> addr \<Rightarrow> DataFunctionArgs \<Rightarrow> unit callback"

type_synonym formDataParser = "addr \<Rightarrow> DataFunctionArgs \<Rightarrow> formdata callback"

section \<open>\<open>utils.ts\<close>: the three pipelines\<close>

subsection \<open>The field-path object of the form pipeline\<close>

text \<open>\<open>form.getAll(key)\<close>: the values of the entries named \<open>key\<close>, in order.\<close>

definition getAll :: "formdata \<Rightarrow> string \<Rightarrow> jsval list" where
  "getAll form key = map snd (filter (\<lambda>e. fst e = key) form)"

text \<open>The loop \<open>for (const key of form.keys())\<close>; \<open>keys()\<close> yields the name of every
  entry, repeated names included.\<close>

fun form_loop :: "formdata \<Rightarrow> string list \<Rightarrow> jsval \<Rightarrow> jsval" where
  "form_loop form [] obj = obj"
| "form_loop form (key # keys) obj =
     (let values = filter isString (getAll form key) in
      if length values = 0 then form_loop form keys obj
      else form_loop form keys
             (rhf_set obj key (if length values = 1 then values ! 0 else JArr values)))"

definition form_object :: "formdata \<Rightarrow> jsval" where
  "form_object form = form_loop form (map fst form) (JObj [])"

subsection \<open>The field-path object of the query-string pipeline\<close>

fun query_loop :: "(string \<times> string) list \<Rightarrow> jsval \<Rightarrow> jsval" where
  "query_loop [] obj = obj"
| "query_loop ((key, v) # rest) obj =
     (let check = rhf_get obj key JUndefined in
      if check \<noteq> JUndefined then
        (if isArray check then query_loop rest (push_at obj (get_location obj key) (JStr v))
         else query_loop rest (rhf_set obj key (JArr [check, JStr v])))
      else query_loop rest (rhf_set obj key (JStr v)))"

definition query_object :: "(string \<times> string) list \<Rightarrow> jsval" where
  "query_object entries = query_loop entries (JObj [])"

subsection \<open>\<open>parseForm\<close>, \<open>parseParams\<close>, \<open>parseQueryString\<close>, \<open>unwrapSchema\<close>\<close>

text \<open>
  In all three functions the schema has been unwrapped by the caller: \<open>None\<close> is
  \<open>undefined\<close>. When there is no hook, nothing is awaited before the \<open>throw\<close>.
\<close>

definition parseForm ::
  "DataFunctionArgs \<Rightarrow> zschema option \<Rightarrow> addr \<Rightarrow> onParseError option \<Rightarrow>
   formDataParser option \<Rightarrow> state \<Rightarrow> (jserror + jsval) \<times> state" where
  "parseForm dataArgs formSchema context onParseError formDataParser st =
     (case formSchema of
        Some schema \<Rightarrow>
          await
            (case formDataParser of
               Some parser \<Rightarrow>
                 call (FormDataParserCalled context dataArgs) (parser context dataArgs)
             | None \<Rightarrow> call RequestFormDataCalled (formData (request dataArgs)))
            (\<lambda>form st1.
               let obj = form_object form;
                   st2 = log (SafeParseCalled FormPipeline obj) st1
               in case schema (heap st2) obj of
                    Inr data \<Rightarrow> (Inr data, st2)
                  | Inl err \<Rightarrow>
                      await
                        (case onParseError of
                           Some hook \<Rightarrow>
                             call (OnParseErrorCalled FormPipeline err context dataArgs)
                               (hook err context dataArgs)
                         | None \<Rightarrow> (\<lambda>s. (Inr (), s)))
                        (\<lambda>_ st3.
                           (Inl (Error
                              ''Several issues were found while trying to parse the form data.''),
                            st3))
                        st2)
            st
      | None \<Rightarrow> (Inr JUndefined, st))"

definition parseParams ::
  "DataFunctionArgs \<Rightarrow> zschema option \<Rightarrow> addr \<Rightarrow> onParseError option \<Rightarrow>
   state \<Rightarrow> (jserror + jsval) \<times> state" where
  "parseParams dataArgs paramsSchema context onParseError st =
     (case paramsSchema of
        Some schema \<Rightarrow>
          (let st1 = log (SafeParseCalled ParamsPipeline (params dataArgs)) st
           in case schema (heap st1) (params dataArgs) of
                Inr data \<Rightarrow> (Inr data, st1)
              | Inl err \<Rightarrow>
                  await
                    (case onParseError of
                       Some hook \<Rightarrow>
                         call (OnParseErrorCalled ParamsPipeline err context dataArgs)
                           (hook err context dataArgs)
                     | None \<Rightarrow> (\<lambda>s. (Inr (), s)))
                    (\<lambda>_ st2.
                       (Inl (Error
                          ''Several issues were found while trying to parse the params.''),
                        st2))
                    st1)
      | None \<Rightarrow> (Inr (params dataArgs), st))"

definition parseQueryString ::
  "DataFunctionArgs \<Rightarrow> zschema option \<Rightarrow> addr \<Rightarrow> onParseError option \<Rightarrow>
   state \<Rightarrow> (jserror + jsval) \<times> state" where
  "parseQueryString dataArgs queryStringSchema context onParseError st =
     (case queryStringSchema of
        Some schema \<Rightarrow>
          (case searchParams (request dataArgs) of
             Inl e \<Rightarrow> (Inl e, st)
           | Inr entries \<Rightarrow>
               (let obj = query_object entries;
                    st1 = log (SafeParseCalled QueryStringPipeline obj) st
                in case schema (heap st1) obj of
                     Inr data \<Rightarrow> (Inr data, st1)
                   | Inl err \<Rightarrow>
                       await
                         (case onParseError of
                            Some hook \<Rightarrow>
                              call (OnParseErrorCalled QueryStringPipeline err context dataArgs)
                                (hook err context dataArgs)
                          | None \<Rightarrow> (\<lambda>s. (Inr (), s)))
                         (\<lambda>_ st2.
                            (Inl (Error
                               ''Several issues were found while trying to parse the query string.''),
                             st2))
                         st1))
      | None \<Rightarrow> (Inr JUndefined, st))"

text \<open>A schema option: absent, a schema, or a function that returns one.\<close>

datatype schema_arg = NoSchema | Schema zschema | Thunk "zschema option callback"

fun unwrapSchema :: "schema_arg \<Rightarrow> state \<Rightarrow> (jserror + zschema option) \<times> state" where
  "unwrapSchema NoSchema st = (Inr None, st)"
| "unwrapSchema (Schema s) st = (Inr (Some s), st)"
| "unwrapSchema (Thunk f) st = call SchemaThunkCalled f st"

section \<open>\<open>factory.ts\<close>: the context factory\<close>

record RequestContextOptions =
  formSchema :: schema_arg
  paramsSchema :: schema_arg
  queryStringSchema :: schema_arg
  formDataParser :: "formDataParser option"
  extraOptions :: jsval

type_synonym configurator =
  "DataFunctionArgs \<Rightarrow> RequestContextOptions option \<Rightarrow> addr callback"

record RequestContextConfiguratorOptions =
  configurator :: configurator
  onFormError :: "onParseError option"
  onParamsError :: "onParseError option"
  onQueryStringError :: "onParseError option"

datatype RequestContextFactoryOptions =
    ConfiguratorFunction configurator
  | ConfiguratorOptions RequestContextConfiguratorOptions

text \<open>
  \<open>set(customContext, key, value)\<close> on the stored context object, for a key that \<open>isKey\<close>
  accepts (\<open>'form'\<close>, \<open>'params'\<close>, \<open>'queryString'\<close>). The path is the single segment
  \<open>key\<close>, so the loop body of \<open>set\<close> runs once, at the last index:
  \<open>object[key] = value; object = object[key]\<close>. The assignment replaces or adds a data
  property; on an accessor without a setter it throws (the library is strict code). The
  read that follows would evaluate a getter stored under \<open>key\<close>; its value is dropped.
\<close>

definition assign_prop :: "addr \<Rightarrow> string \<Rightarrow> jsval \<Rightarrow> state \<Rightarrow> (jserror + unit) \<times> state" where
  "assign_prop a key v st =
     (case map_of (heap st a) key of
        Some (Accessor g gv) \<Rightarrow>
          (Inl (TypeError ''Cannot set property which has only a getter''), st)
      | _ \<Rightarrow> (Inr (), st\<lparr>heap := (heap st)(a := put_field (heap st a) key (Data v))\<rparr>))"

definition read_prop :: "addr \<Rightarrow> string \<Rightarrow> state \<Rightarrow> (jserror + unit) \<times> state" where
  "read_prop a key st =
     (case map_of (heap st a) key of
        Some (Accessor g gv) \<Rightarrow> (Inr (), log (GetterEvaluated g) st)
      | _ \<Rightarrow> (Inr (), st))"

definition set_context :: "addr \<Rightarrow> string \<Rightarrow> jsval \<Rightarrow> state \<Rightarrow> (jserror + unit) \<times> state" where
  "set_context a key v = await (assign_prop a key v) (\<lambda>_. read_prop a key)"

text \<open>\<open>options?.field\<close>.\<close>

definition schema_option ::
  "(RequestContextOptions \<Rightarrow> schema_arg) \<Rightarrow> RequestContextOptions option \<Rightarrow> schema_arg" where
  "schema_option field options = (case options of Some opts \<Rightarrow> field opts | None \<Rightarrow> NoSchema)"

definition parser_option :: "RequestContextOptions option \<Rightarrow> formDataParser option" where
  "parser_option options = (case options of Some opts \<Rightarrow> formDataParser opts | None \<Rightarrow> None)"

text \<open>The three \<open>set\<close> calls that attach the results to the configurator's output.\<close>

definition attach :: "addr \<Rightarrow> jsval \<Rightarrow> jsval \<Rightarrow> jsval \<Rightarrow> state \<Rightarrow> (jserror + addr) \<times> state" where
  "attach customContext form_v params_v queryString_v =
     await (set_context customContext ''form'' form_v) (\<lambda>_.
     await (set_context customContext ''params'' params_v) (\<lambda>_.
     await (set_context customContext ''queryString'' queryString_v) (\<lambda>_ st.
     (Inr customContext, st))))"

text \<open>The asynchronous function that the factory returns. The properties of the object
  literal \<open>context\<close> are evaluated in source order, each \<open>await\<close> before the next.\<close>

definition createRequestContext ::
  "RequestContextConfiguratorOptions \<Rightarrow> DataFunctionArgs \<Rightarrow> RequestContextOptions option \<Rightarrow>
   state \<Rightarrow> (jserror + addr) \<times> state" where
  "createRequestContext factoryOptions args options =
     await (call ConfiguratorCalled (configurator factoryOptions args options))
       (\<lambda>customContext.
     await (unwrapSchema (schema_option paramsSchema options)) (\<lambda>pSchema.
     await (parseParams args pSchema customContext (onParamsError factoryOptions))
       (\<lambda>params_v.
     await (unwrapSchema (schema_option queryStringSchema options)) (\<lambda>qSchema.
     await (parseQueryString args qSchema customContext (onQueryStringError factoryOptions))
       (\<lambda>queryString_v.
     await (unwrapSchema (schema_option formSchema options)) (\<lambda>fSchema.
     await (parseForm args fSchema customContext (onFormError factoryOptions)
              (parser_option options))
       (\<lambda>form_v.
     attach customContext form_v params_v queryString_v)))))))"

definition createRequestContextFactory ::
  "RequestContextFactoryOptions \<Rightarrow> DataFunctionArgs \<Rightarrow> RequestContextOptions option \<Rightarrow>
   state \<Rightarrow> (jserror + addr) \<times> state" where
  "createRequestContextFactory configuratorOrOptions =
     (let factoryOptions =
        (case configuratorOrOptions of
           ConfiguratorFunction f \<Rightarrow>
             \<lparr>configurator = f, onFormError = None, onParamsError = None,
              onQueryStringError = None\<rparr>
         | ConfiguratorOptions opts \<Rightarrow> opts)
      in createRequestContext factoryOptions)"

section \<open>Field keys that do not interfere\<close>















text \<open>An own property of an inline object or array. The elements of an array that are
  \<open>undefined\<close> are its holes: the builder stores no \<open>undefined\<close>, and an assignment beyond
  the end of an array leaves holes before the index. A path is present in an object when
  an own property exists at every step of it, whatever the value of the last one: this
  is what the \<open>in\<close> operator and \<open>Object.keys\<close> observe, where reading cannot tell a
  missing property from one that holds \<open>undefined\<close>.\<close>

fun own :: "jsval \<Rightarrow> string \<Rightarrow> bool" where
  "own (JObj fs) k = (map_of fs k \<noteq> None)"
| "own (JArr xs) k =
     (case array_index k of Some i \<Rightarrow> i < length xs \<and> xs ! i \<noteq> JUndefined | None \<Rightarrow> False)"
| "own v k = False"





section \<open>\<open>zod/index.ts\<close>: the boolean-gated discriminated union\<close>

subsection \<open>Reading any value, stored objects included\<close>

fun prop_value :: "jsprop \<Rightarrow> jsval" where
  "prop_value (Data v) = v"
| "prop_value (Accessor g v) = v"

text \<open>\<open>val[k]\<close>, \<open>k in val\<close> and the own enumerable properties \<open>{...val}\<close>.\<close>

fun js_read :: "heap \<Rightarrow> jsval \<Rightarrow> string \<Rightarrow> jsval" where
  "js_read h (JRef a) k = (case map_of (h a) k of Some p \<Rightarrow> prop_value p | None \<Rightarrow> inherited k)"
| "js_read h v k = js_prop v k"

fun js_in :: "heap \<Rightarrow> string \<Rightarrow> jsval \<Rightarrow> bool" where
  "js_in h k (JObj fs) = (k \<in> fst ` set fs \<or> k \<in> set object_prototype_names)"
| "js_in h k (JRef a) = (k \<in> fst ` set (h a) \<or> k \<in> set object_prototype_names)"
| "js_in h k (JArr xs) =
     (case array_index k of
        Some i \<Rightarrow> i < length xs
      | None \<Rightarrow> k = ''length'' \<or> k \<in> set object_prototype_names)"
| "js_in h k (JFile n) = (k \<in> set object_prototype_names)"
| "js_in h k v = False"

function show_nat :: "nat \<Rightarrow> string" where
  "show_nat n =
     (if n < 10 then [char_of (48 + n)]
      else show_nat (n div 10) @ [char_of (48 + n mod 10)])"
  by pat_completeness auto
termination
  by (relation "measure id") auto

fun own_props :: "heap \<Rightarrow> jsval \<Rightarrow> (string \<times> jsval) list" where
  "own_props h (JObj fs) = fs"
| "own_props h (JRef a) = map (\<lambda>(k, p). (k, prop_value p)) (h a)"
| "own_props h (JArr xs) = zip (map show_nat [0..<length xs]) xs"
| "own_props h v = []"

text \<open>\<open>typeof val === 'object'\<close> (true of \<open>null\<close> as well) and \<open>typeof val === 'boolean'\<close>.\<close>

fun typeof_object :: "jsval \<Rightarrow> bool" where
  "typeof_object JNull = True"
| "typeof_object (JArr xs) = True"
| "typeof_object (JObj fs) = True"
| "typeof_object (JRef a) = True"
| "typeof_object (JFile n) = True"
| "typeof_object v = False"

fun typeof_boolean :: "jsval \<Rightarrow> bool" where
  "typeof_boolean (JBool b) = True"
| "typeof_boolean v = False"

subsection \<open>The schema combinators of zod\<close>

text \<open>
  \<open>zod/index.ts\<close> builds its schema from \<open>z.preprocess\<close>, \<open>z.discriminatedUnion\<close>,
  \<open>z.object\<close> and \<open>z.literal\<close> (zod ^3.21.4). They are modelled after the library:
  \<^item> \<open>z.literal(x)\<close> accepts exactly the value \<open>x\<close>;
  \<^item> \<open>z.object(shape)\<close> accepts an object (not an array, not \<open>null\<close>), validates
    \<open>input[key]\<close> against the schema of every key of the shape, fails with the issues
    of all fields when one of them fails, and otherwise gives a new object with the keys
    of the shape that are present in the input or have a defined value (unknown keys are
    stripped);
  \<^item> \<open>z.discriminatedUnion(d, options)\<close> accepts an object and validates it against the
    option whose literal for \<open>d\<close> is \<open>input[d]\<close>, failing when there is none;
  \<^item> \<open>z.preprocess(f, schema)\<close> validates \<open>f(input)\<close> against \<open>schema\<close>.
  A shape maps keys to field schemas; a literal is kept as such, so that the union can
  find its discriminator values.
\<close>

datatype zfield = ZLiteral jsval | ZSchema zschema

fun parse_field :: "zfield \<Rightarrow> zschema" where
  "parse_field (ZLiteral lit) h v =
     (if v = lit then Inr v else Inl (ZodError [''invalid_literal'']))"
| "parse_field (ZSchema s) h v = s h v"

fun is_object_type :: "jsval \<Rightarrow> bool" where
  "is_object_type (JObj fs) = True"
| "is_object_type (JRef a) = True"
| "is_object_type (JFile n) = True"
| "is_object_type v = False"

fun issues_of :: "zod_error + jsval \<Rightarrow> string list" where
  "issues_of (Inl (ZodError issues)) = issues"
| "issues_of (Inr v) = []"

text \<open>One pair per key of the shape: the key, whether it is in the input, the result.\<close>

definition object_pairs ::
  "(string \<times> zfield) list \<Rightarrow> heap \<Rightarrow> jsval \<Rightarrow> (string \<times> bool \<times> (zod_error + jsval)) list" where
  "object_pairs shape h input =
     map (\<lambda>(key, f). (key, js_in h key input, parse_field f h (js_read h input key))) shape"

fun merge_pairs ::
  "(string \<times> bool \<times> (zod_error + jsval)) list \<Rightarrow> (string \<times> jsval) list \<Rightarrow>
   (string \<times> jsval) list" where
  "merge_pairs [] finalObject = finalObject"
| "merge_pairs ((key, alwaysSet, Inr v) # pairs) finalObject =
     (if v \<noteq> JUndefined \<or> alwaysSet then merge_pairs pairs (put_field finalObject key v)
      else merge_pairs pairs finalObject)"
| "merge_pairs ((key, alwaysSet, Inl e) # pairs) finalObject = merge_pairs pairs finalObject"

definition z_object :: "(string \<times> zfield) list \<Rightarrow> zschema" where
  "z_object shape h input =
     (if \<not> is_object_type input then Inl (ZodError [''invalid_type''])
      else
        (let pairs = object_pairs shape h input in
         if list_ex (\<lambda>(key, alwaysSet, r). isl r) pairs
         then Inl (ZodError (concat (map (\<lambda>(key, alwaysSet, r). issues_of r) pairs)))
         else Inr (JObj (merge_pairs pairs []))))"

text \<open>Whether the field of an option is the literal of a value.\<close>

fun literal_is :: "zfield option \<Rightarrow> jsval \<Rightarrow> bool" where
  "literal_is (Some (ZLiteral lit)) v = (lit = v)"
| "literal_is f v = False"

definition z_discriminatedUnion :: "string \<Rightarrow> (string \<times> zfield) list list \<Rightarrow> zschema" where
  "z_discriminatedUnion discriminator options h input =
     (if \<not> is_object_type input then Inl (ZodError [''invalid_type''])
      else
        (case find (\<lambda>shape. literal_is (map_of shape discriminator)
                      (js_read h input discriminator)) options of
           Some shape \<Rightarrow> z_object shape h input
         | None \<Rightarrow> Inl (ZodError [''invalid_union_discriminator''])))"

definition z_preprocess :: "(heap \<Rightarrow> jsval \<Rightarrow> jsval) \<Rightarrow> zschema \<Rightarrow> zschema" where
  "z_preprocess f schema h input = schema h (f h input)"

subsection \<open>\<open>objectHasEnabledProperty\<close> and \<open>zodDiscriminatedEnabledUnion\<close>\<close>

definition objectHasEnabledProperty :: "heap \<Rightarrow> jsval \<Rightarrow> bool" where
  "objectHasEnabledProperty h val =
     (typeof_object val \<and> val \<noteq> JNull \<and> val \<noteq> JUndefined \<and> js_in h ''enabled'' val)"

text \<open>The function given to \<open>z.preprocess\<close>.\<close>

definition normalize_enabled :: "heap \<Rightarrow> jsval \<Rightarrow> jsval" where
  "normalize_enabled h val =
     (if objectHasEnabledProperty h val
      then JObj (put_field (own_props h val) ''enabled''
             (if typeof_boolean (js_read h val ''enabled'') then js_read h val ''enabled''
              else JBool (js_read h val ''enabled'' = JStr ''true'')))
      else JObj [(''enabled'', JBool False)])"

definition zodDiscriminatedEnabledUnion :: "(string \<times> zfield) list \<Rightarrow> zschema" where
  "zodDiscriminatedEnabledUnion shape =
     z_preprocess normalize_enabled
       (z_discriminatedUnion ''enabled''
          [[(''enabled'', ZLiteral (JBool False))],
           put_field shape ''enabled'' (ZLiteral (JBool True))])"

section \<open>Reading the trace\<close>

text \<open>The pipeline an event belongs to: the calls that only one pipeline makes.\<close>

fun event_pipeline :: "event \<Rightarrow> pipeline option" where
  "event_pipeline (SafeParseCalled p obj) = Some p"
| "event_pipeline (OnParseErrorCalled p err context dataArgs) = Some p"
| "event_pipeline (FormDataParserCalled context dataArgs) = Some FormPipeline"
| "event_pipeline RequestFormDataCalled = Some FormPipeline"
| "event_pipeline ev = None"

definition pipeline_ran :: "pipeline \<Rightarrow> event list \<Rightarrow> bool" where
  "pipeline_ran p evs = (Some p \<in> set (map event_pipeline evs))"

fun is_parser_call :: "event \<Rightarrow> bool" where
  "is_parser_call (FormDataParserCalled context dataArgs) = True"
| "is_parser_call ev = False"

section \<open>Example requests\<close>

text \<open>
  The fixtures of the repository's tests: the path parameters \<open>{id: '5'}\<close> stored at
  address 1, the URL \<open>http://localhost/test/?page=1&size=25&sort=asc\<close>, a body with the
  fields \<open>name=Jimmy\<close> and \<open>age=5\<close>; a context object with a getter \<open>test\<close> that the
  configurator creates at address 2; a schema that accepts everything and one that
  rejects everything; a hook that records nothing and one that throws.
\<close>

definition test_request :: Request where
  "test_request =
     \<lparr>searchParams = Inr [(''page'', ''1''), (''size'', ''25''), (''sort'', ''asc'')],
      formData = (\<lambda>h. (Inr [(''name'', JStr ''Jimmy''), (''age'', JStr ''5'')], h))\<rparr>"

definition test_args :: DataFunctionArgs where
  "test_args = \<lparr>request = test_request, params = JRef 1\<rparr>"

definition test_state :: state where
  "test_state = \<lparr>heap = (\<lambda>a. [])(1 := [(''id'', Data (JStr ''5''))]), trace = []\<rparr>"

definition getter_configurator :: configurator where
  "getter_configurator args options h = (Inr 2, h(2 := [(''test'', Accessor 0 (JStr ''test''))]))"

definition throwing_configurator :: configurator where
  "throwing_configurator args options h = (Inl (Error ''I can do this!''), h)"

definition accept_all :: zschema where
  "accept_all h v = Inr v"

definition reject_all :: zschema where
  "reject_all h v = Inl (ZodError [''Required''])"

definition silent_hook :: onParseError where
  "silent_hook err context dataArgs h = (Inr (), h)"

definition throwing_hook :: onParseError where
  "throwing_hook err context dataArgs h = (Inl (Error ''custom error''), h)"

definition body_parser :: formDataParser where
  "body_parser context dataArgs h = (Inr [(''name'', JStr ''Bob'')], h)"

definition test_options :: RequestContextOptions where
  "test_options =
     \<lparr>formSchema = Schema accept_all, paramsSchema = Schema reject_all,
      queryStringSchema = Schema accept_all, formDataParser = None,
      extraOptions = JUndefined\<rparr>"

definition test_factory_options :: RequestContextConfiguratorOptions where
  "test_factory_options =
     \<lparr>configurator = getter_configurator, onFormError = None, onParamsError = None,
      onQueryStringError = None\<rparr>"

section \<open>Basic facts about the store and the trace\<close>

lemma await_Inr: "m st = (Inr x, st1) \<Longrightarrow> await m f st = f x st1"
  by (simp add: await_def)

section \<open>The form pipeline without a schema\<close>

text \<open>
  Claim C10. When the unwrapped form schema is \<open>undefined\<close>, \<open>parseForm\<close> returns
  \<open>undefined\<close> and leaves the state as it was: the body reader of the request is not
  called and neither is the custom form-data extractor, whether one is supplied or not
  (no event is added to the trace, the store is untouched). The result is therefore the
  same for every request body and every extractor.
\<close>

theorem parseForm_no_schema:
  "parseForm dataArgs None context hook parser st = (Inr JUndefined, st)"
  by (simp add: parseForm_def)

section \<open>A configurator that fails\<close>

text \<open>
  Claim C5. If the configurator throws, or the promise it returns rejects, with an error
  \<open>e\<close>, the context builder returned by \<open>createRequestContextFactory\<close> rejects with exactly
  \<open>e\<close>, whichever of the two forms the factory was given. The call of the configurator
  is the only event added to the trace and the store is the one the configurator left:
  no schema thunk is called, no body is read, no validation runs, no hook is called.
\<close>

theorem configurator_failure:
  assumes "f args options (heap st) = (Inl e, h)"
  shows "createRequestContextFactory (ConfiguratorFunction f) args options st =
           (Inl e, \<lparr>heap = h, trace = trace st @ [ConfiguratorCalled]\<rparr>)
       \<and> createRequestContextFactory (ConfiguratorOptions (opts\<lparr>configurator := f\<rparr>))
           args options st =
           (Inl e, \<lparr>heap = h, trace = trace st @ [ConfiguratorCalled]\<rparr>)"
  using assms
  by (simp add: createRequestContextFactory_def createRequestContext_def await_def call_def)

theorem configurator_failure_witness:
  "throwing_configurator test_args None (heap test_state) =
     (Inl (Error ''I can do this!''), heap test_state)
   \<and> createRequestContextFactory (ConfiguratorFunction throwing_configurator)
       test_args None test_state =
       (Inl (Error ''I can do this!''),
        \<lparr>heap = heap test_state, trace = [ConfiguratorCalled]\<rparr>)
   \<and> createRequestContextFactory
       (ConfiguratorOptions (test_factory_options\<lparr>configurator := throwing_configurator\<rparr>))
       test_args None test_state =
       (Inl (Error ''I can do this!''),
        \<lparr>heap = heap test_state, trace = [ConfiguratorCalled]\<rparr>)"
proof -
  have h: "throwing_configurator test_args None (heap test_state) =
             (Inl (Error ''I can do this!''), heap test_state)"
    by (simp add: throwing_configurator_def)
  have t: "trace test_state = []"
    by (simp add: test_state_def)
  show ?thesis
    using configurator_failure [of throwing_configurator test_args None test_state
        "Error ''I can do this!''" "heap test_state" test_factory_options] h t
    by simp
qed

section \<open>An error hook that fails\<close>

text \<open>
  Claim C4. In each of the three pipelines, when the schema rejects the object and the
  error hook that was supplied throws (or rejects) with an error \<open>e\<close>, the pipeline fails
  with exactly \<open>e\<close>: the hook's error takes the place of the pipeline's own
  fixed-message error, which is not raised. The hook is the last thing the pipeline
  calls.
\<close>

theorem hook_error_wins:
  "(schema (heap st) (params dataArgs) = Inl err \<and>
    hook err ctx dataArgs (heap st) = (Inl e, h) \<longrightarrow>
      parseParams dataArgs (Some schema) ctx (Some hook) st =
        (Inl e,
         \<lparr>heap = h,
          trace = trace st @
            [SafeParseCalled ParamsPipeline (params dataArgs),
             OnParseErrorCalled ParamsPipeline err ctx dataArgs]\<rparr>))
 \<and> (searchParams (request dataArgs) = Inr entries \<and>
    schema (heap st) (query_object entries) = Inl err \<and>
    hook err ctx dataArgs (heap st) = (Inl e, h) \<longrightarrow>
      parseQueryString dataArgs (Some schema) ctx (Some hook) st =
        (Inl e,
         \<lparr>heap = h,
          trace = trace st @
            [SafeParseCalled QueryStringPipeline (query_object entries),
             OnParseErrorCalled QueryStringPipeline err ctx dataArgs]\<rparr>))
 \<and> ((case parser of Some p \<Rightarrow> p ctx dataArgs | None \<Rightarrow> formData (request dataArgs))
      (heap st) = (Inr form, h1) \<and>
    schema h1 (form_object form) = Inl err \<and>
    hook err ctx dataArgs h1 = (Inl e, h) \<longrightarrow>
      parseForm dataArgs (Some schema) ctx (Some hook) parser st =
        (Inl e,
         \<lparr>heap = h,
          trace = trace st @
            [case parser of Some p \<Rightarrow> FormDataParserCalled ctx dataArgs
             | None \<Rightarrow> RequestFormDataCalled,
             SafeParseCalled FormPipeline (form_object form),
             OnParseErrorCalled FormPipeline err ctx dataArgs]\<rparr>))"
proof (intro conjI impI)
  assume "schema (heap st) (params dataArgs) = Inl err \<and>
    hook err ctx dataArgs (heap st) = (Inl e, h)"
  then show "parseParams dataArgs (Some schema) ctx (Some hook) st =
        (Inl e,
         \<lparr>heap = h,
          trace = trace st @
            [SafeParseCalled ParamsPipeline (params dataArgs),
             OnParseErrorCalled ParamsPipeline err ctx dataArgs]\<rparr>)"
    by (simp add: parseParams_def log_def await_def call_def)
next
  assume "searchParams (request dataArgs) = Inr entries \<and>
    schema (heap st) (query_object entries) = Inl err \<and>
    hook err ctx dataArgs (heap st) = (Inl e, h)"
  then show "parseQueryString dataArgs (Some schema) ctx (Some hook) st =
        (Inl e,
         \<lparr>heap = h,
          trace = trace st @
            [SafeParseCalled QueryStringPipeline (query_object entries),
             OnParseErrorCalled QueryStringPipeline err ctx dataArgs]\<rparr>)"
    by (simp add: parseQueryString_def log_def await_def call_def)
next
  assume "(case parser of Some p \<Rightarrow> p ctx dataArgs | None \<Rightarrow> formData (request dataArgs))
      (heap st) = (Inr form, h1) \<and>
    schema h1 (form_object form) = Inl err \<and>
    hook err ctx dataArgs h1 = (Inl e, h)"
  then show "parseForm dataArgs (Some schema) ctx (Some hook) parser st =
        (Inl e,
         \<lparr>heap = h,
          trace = trace st @
            [case parser of Some p \<Rightarrow> FormDataParserCalled ctx dataArgs
             | None \<Rightarrow> RequestFormDataCalled,
             SafeParseCalled FormPipeline (form_object form),
             OnParseErrorCalled FormPipeline err ctx dataArgs]\<rparr>)"
    by (cases parser) (simp_all add: parseForm_def log_def await_def call_def)
qed

theorem hook_error_wins_witness:
  "reject_all (heap test_state) (params test_args) = Inl (ZodError [''Required''])
 \<and> throwing_hook (ZodError [''Required'']) 2 test_args (heap test_state) =
     (Inl (Error ''custom error''), heap test_state)
 \<and> searchParams (request test_args) =
     Inr [(''page'', ''1''), (''size'', ''25''), (''sort'', ''asc'')]
 \<and> formData (request test_args) (heap test_state) =
     (Inr [(''name'', JStr ''Jimmy''), (''age'', JStr ''5'')], heap test_state)
 \<and> fst (parseParams test_args (Some reject_all) 2 (Some throwing_hook) test_state) =
     Inl (Error ''custom error'')
 \<and> fst (parseQueryString test_args (Some reject_all) 2 (Some throwing_hook) test_state) =
     Inl (Error ''custom error'')
 \<and> fst (parseForm test_args (Some reject_all) 2 (Some throwing_hook) None test_state) =
     Inl (Error ''custom error'')"
  using hook_error_wins [where schema = reject_all and st = test_state
      and dataArgs = test_args and err = "ZodError [''Required'']" and hook = throwing_hook
      and ctx = 2 and e = "Error ''custom error''" and h = "heap test_state"
      and parser = None and ?h1.0 = "heap test_state"
      and entries = "[(''page'', ''1''), (''size'', ''25''), (''sort'', ''asc'')]"
      and form = "[(''name'', JStr ''Jimmy''), (''age'', JStr ''5'')]"]
  by (simp add: reject_all_def throwing_hook_def test_args_def test_request_def)

section \<open>A schema that rejects\<close>

text \<open>
  Claim C3, as stated, fails when the hook throws: the error raised is then the hook's,
  not the fixed message of the pipeline. Here the params schema rejects and the hook
  throws \<open>custom error\<close>.
\<close>

theorem fixed_message_counterexample:
  "reject_all (heap test_state) (params test_args) = Inl (ZodError [''Required''])
 \<and> fst (parseParams test_args (Some reject_all) 2 (Some throwing_hook) test_state) =
     Inl (Error ''custom error'')
 \<and> fst (parseParams test_args (Some reject_all) 2 (Some throwing_hook) test_state) \<noteq>
     Inl (Error ''Several issues were found while trying to parse the params.'')"
  by (simp add: parseParams_def reject_all_def throwing_hook_def log_def await_def call_def)

text \<open>
  Claim C3, amended. In each of the three pipelines, when the schema rejects the object
  with a validation error \<open>err\<close> and the hook is absent or returns normally, the pipeline
  raises an error whose message is exactly its fixed string. When a hook is supplied, it
  is called exactly once, after \<open>safeParse\<close> and before the raise, with \<open>err\<close>, the base
  context and the request data args.
\<close>

theorem fixed_message:
  "(schema (heap st) (params dataArgs) = Inl err \<and>
    (case hook of Some f \<Rightarrow> f err ctx dataArgs (heap st) = (Inr (), h)
     | None \<Rightarrow> h = heap st) \<longrightarrow>
      parseParams dataArgs (Some schema) ctx hook st =
        (Inl (Error ''Several issues were found while trying to parse the params.''),
         \<lparr>heap = h,
          trace = trace st @
            SafeParseCalled ParamsPipeline (params dataArgs) #
            (case hook of Some f \<Rightarrow> [OnParseErrorCalled ParamsPipeline err ctx dataArgs]
             | None \<Rightarrow> [])\<rparr>))
 \<and> (searchParams (request dataArgs) = Inr entries \<and>
    schema (heap st) (query_object entries) = Inl err \<and>
    (case hook of Some f \<Rightarrow> f err ctx dataArgs (heap st) = (Inr (), h)
     | None \<Rightarrow> h = heap st) \<longrightarrow>
      parseQueryString dataArgs (Some schema) ctx hook st =
        (Inl (Error ''Several issues were found while trying to parse the query string.''),
         \<lparr>heap = h,
          trace = trace st @
            SafeParseCalled QueryStringPipeline (query_object entries) #
            (case hook of
               Some f \<Rightarrow> [OnParseErrorCalled QueryStringPipeline err ctx dataArgs]
             | None \<Rightarrow> [])\<rparr>))
 \<and> ((case parser of Some p \<Rightarrow> p ctx dataArgs | None \<Rightarrow> formData (request dataArgs))
      (heap st) = (Inr form, h1) \<and>
    schema h1 (form_object form) = Inl err \<and>
    (case hook of Some f \<Rightarrow> f err ctx dataArgs h1 = (Inr (), h)
     | None \<Rightarrow> h = h1) \<longrightarrow>
      parseForm dataArgs (Some schema) ctx hook parser st =
        (Inl (Error ''Several issues were found while trying to parse the form data.''),
         \<lparr>heap = h,
          trace = trace st @
            (case parser of Some p \<Rightarrow> FormDataParserCalled ctx dataArgs
             | None \<Rightarrow> RequestFormDataCalled) #
            SafeParseCalled FormPipeline (form_object form) #
            (case hook of Some f \<Rightarrow> [OnParseErrorCalled FormPipeline err ctx dataArgs]
             | None \<Rightarrow> [])\<rparr>))"
proof (intro conjI impI)
  assume "schema (heap st) (params dataArgs) = Inl err \<and>
    (case hook of Some f \<Rightarrow> f err ctx dataArgs (heap st) = (Inr (), h)
     | None \<Rightarrow> h = heap st)"
  then show "parseParams dataArgs (Some schema) ctx hook st =
        (Inl (Error ''Several issues were found while trying to parse the params.''),
         \<lparr>heap = h,
          trace = trace st @
            SafeParseCalled ParamsPipeline (params dataArgs) #
            (case hook of Some f \<Rightarrow> [OnParseErrorCalled ParamsPipeline err ctx dataArgs]
             | None \<Rightarrow> [])\<rparr>)"
    by (cases hook) (simp_all add: parseParams_def log_def await_def call_def)
next
  assume "searchParams (request dataArgs) = Inr entries \<and>
    schema (heap st) (query_object entries) = Inl err \<and>
    (case hook of Some f \<Rightarrow> f err ctx dataArgs (heap st) = (Inr (), h)
     | None \<Rightarrow> h = heap st)"
  then show "parseQueryString dataArgs (Some schema) ctx hook st =
        (Inl (Error ''Several issues were found while trying to parse the query string.''),
         \<lparr>heap = h,
          trace = trace st @
            SafeParseCalled QueryStringPipeline (query_object entries) #
            (case hook of
               Some f \<Rightarrow> [OnParseErrorCalled QueryStringPipeline err ctx dataArgs]
             | None \<Rightarrow> [])\<rparr>)"
    by (cases hook) (simp_all add: parseQueryString_def log_def await_def call_def)
next
  assume "(case parser of Some p \<Rightarrow> p ctx dataArgs | None \<Rightarrow> formData (request dataArgs))
      (heap st) = (Inr form, h1) \<and>
    schema h1 (form_object form) = Inl err \<and>
    (case hook of Some f \<Rightarrow> f err ctx dataArgs h1 = (Inr (), h)
     | None \<Rightarrow> h = h1)"
  then show "parseForm dataArgs (Some schema) ctx hook parser st =
        (Inl (Error ''Several issues were found while trying to parse the form data.''),
         \<lparr>heap = h,
          trace = trace st @
            (case parser of Some p \<Rightarrow> FormDataParserCalled ctx dataArgs
             | None \<Rightarrow> RequestFormDataCalled) #
            SafeParseCalled FormPipeline (form_object form) #
            (case hook of Some f \<Rightarrow> [OnParseErrorCalled FormPipeline err ctx dataArgs]
             | None \<Rightarrow> [])\<rparr>)"
    by (cases hook; cases parser) (simp_all add: parseForm_def log_def await_def call_def)
qed

theorem fixed_message_witness:
  "reject_all (heap test_state) (params test_args) = Inl (ZodError [''Required''])
 \<and> silent_hook (ZodError [''Required'']) 2 test_args (heap test_state) =
     (Inr (), heap test_state)
 \<and> parseParams test_args (Some reject_all) 2 (Some silent_hook) test_state =
     (Inl (Error ''Several issues were found while trying to parse the params.''),
      \<lparr>heap = heap test_state,
       trace = [SafeParseCalled ParamsPipeline (JRef 1),
                OnParseErrorCalled ParamsPipeline (ZodError [''Required'']) 2 test_args]\<rparr>)
 \<and> fst (parseQueryString test_args (Some reject_all) 2 (Some silent_hook) test_state) =
     Inl (Error ''Several issues were found while trying to parse the query string.'')
 \<and> fst (parseForm test_args (Some reject_all) 2 (Some silent_hook) None test_state) =
     Inl (Error ''Several issues were found while trying to parse the form data.'')"
  using fixed_message [where schema = reject_all and st = test_state and dataArgs = test_args
      and err = "ZodError [''Required'']" and hook = "Some silent_hook" and ctx = 2
      and h = "heap test_state" and parser = None and ?h1.0 = "heap test_state"
      and entries = "[(''page'', ''1''), (''size'', ''25''), (''sort'', ''asc'')]"
      and form = "[(''name'', JStr ''Jimmy''), (''age'', JStr ''5'')]"]
  by (simp add: reject_all_def silent_hook_def test_args_def test_request_def test_state_def)

section \<open>The custom form-data extractor\<close>

text \<open>
  Claim C7, as stated, fails for a run of the form pipeline without a form schema: the
  extractor that was supplied is not called at all.
\<close>

theorem extractor_counterexample:
  "parseForm test_args None 2 None (Some body_parser) test_state = (Inr JUndefined, test_state)
 \<and> length (filter is_parser_call
       (trace (snd (parseForm test_args None 2 None (Some body_parser) test_state)))) = 0"
  by (simp add: parseForm_def test_state_def)

text \<open>
  Claim C7, amended. For every run of the form pipeline with a form schema and a custom
  form-data extractor, the extractor is the first thing the pipeline calls, with the
  base context and the request data args; it is called exactly once, and the body
  reader of the request is not called by the pipeline. If the extractor fails, the
  pipeline fails with its error; otherwise the object that is validated is built from
  the field collection the extractor returned, and the validated data is the result
  when the schema accepts it.
\<close>

theorem extractor_used:
  assumes "parser ctx dataArgs (heap st) = (r, h)"
  shows "\<exists>rest.
      trace (snd (parseForm dataArgs (Some schema) ctx hook (Some parser) st)) =
        trace st @ FormDataParserCalled ctx dataArgs # rest
    \<and> RequestFormDataCalled \<notin> set rest
    \<and> filter is_parser_call rest = []
    \<and> (\<forall>e. r = Inl e \<longrightarrow>
          parseForm dataArgs (Some schema) ctx hook (Some parser) st =
            (Inl e, \<lparr>heap = h, trace = trace st @ [FormDataParserCalled ctx dataArgs]\<rparr>))
    \<and> (\<forall>form. r = Inr form \<longrightarrow>
          (\<exists>rest'. rest = SafeParseCalled FormPipeline (form_object form) # rest')
        \<and> (\<forall>data. schema h (form_object form) = Inr data \<longrightarrow>
              fst (parseForm dataArgs (Some schema) ctx hook (Some parser) st) = Inr data))"
proof (cases r)
  case (Inl e)
  with assms show ?thesis
    by (simp add: parseForm_def await_def call_def)
next
  case (Inr form)
  show ?thesis
  proof (cases "schema h (form_object form)")
    case (Inr data)
    with assms \<open>r = Inr form\<close> show ?thesis
      by (simp add: parseForm_def await_def call_def log_def)
  next
    case (Inl err)
    show ?thesis
    proof (cases hook)
      case None
      with assms \<open>r = Inr form\<close> Inl show ?thesis
        by (simp add: parseForm_def await_def call_def log_def)
    next
      case (Some f)
      obtain r2 h2 where "f err ctx dataArgs h = (r2, h2)"
        by (cases "f err ctx dataArgs h")
      with assms \<open>r = Inr form\<close> Inl Some show ?thesis
        by (cases r2) (simp_all add: parseForm_def await_def call_def log_def)
    qed
  qed
qed

theorem extractor_used_witness:
  "body_parser 2 test_args (heap test_state) = (Inr [(''name'', JStr ''Bob'')], heap test_state)
 \<and> parseForm test_args (Some accept_all) 2 None (Some body_parser) test_state =
     (Inr (JObj [(''name'', JStr ''Bob'')]),
      \<lparr>heap = heap test_state,
       trace = [FormDataParserCalled 2 test_args,
                SafeParseCalled FormPipeline (JObj [(''name'', JStr ''Bob'')])]\<rparr>)"
proof -
  have obj: "form_object [(''name'', JStr ''Bob'')] = JObj [(''name'', JStr ''Bob'')]"
    by code_simp
  have p: "body_parser 2 test_args (heap test_state) =
             (Inr [(''name'', JStr ''Bob'')], heap test_state)"
    by (simp add: body_parser_def)
  note used = extractor_used [where parser = body_parser and ctx = 2 and dataArgs = test_args
      and st = test_state and r = "Inr [(''name'', JStr ''Bob'')]" and h = "heap test_state"
      and schema = accept_all and hook = None]
  from used [OF p]
  obtain rest where
    "trace (snd (parseForm test_args (Some accept_all) 2 None (Some body_parser) test_state)) =
       trace test_state @ FormDataParserCalled 2 test_args # rest"
    by blast
  then show ?thesis
    using p obj
    by (simp add: parseForm_def await_def call_def log_def accept_all_def test_state_def
        Let_def)
qed

section \<open>The order of the three pipelines\<close>

lemma pipeline_ran_append:
  "pipeline_ran p (xs @ ys) = (pipeline_ran p xs \<or> pipeline_ran p ys)"
  by (auto simp: pipeline_ran_def)

lemma unwrapSchema_events:
  assumes "unwrapSchema sa st = (r, st')"
  shows "\<exists>evs. trace st' = trace st @ evs \<and> (\<forall>p. \<not> pipeline_ran p evs)"
proof (cases sa)
  case (Thunk f)
  with assms have "trace st' = trace st @ [SchemaThunkCalled]"
    by (auto simp: call_def split: prod.splits)
  moreover have "\<forall>p. \<not> pipeline_ran p [SchemaThunkCalled]"
    by (simp add: pipeline_ran_def)
  ultimately show ?thesis by blast
qed (use assms in \<open>auto simp: pipeline_ran_def\<close>)

lemma parseParams_events:
  assumes "parseParams dataArgs s ctx hook st = (r, st')"
  shows "\<exists>evs. trace st' = trace st @ evs
           \<and> \<not> pipeline_ran QueryStringPipeline evs \<and> \<not> pipeline_ran FormPipeline evs"
  using assms
  by (auto simp: parseParams_def await_def call_def log_def Let_def pipeline_ran_def
      split: option.splits sum.splits prod.splits)

lemma parseQueryString_events:
  assumes "parseQueryString dataArgs s ctx hook st = (r, st')"
  shows "\<exists>evs. trace st' = trace st @ evs
           \<and> \<not> pipeline_ran ParamsPipeline evs \<and> \<not> pipeline_ran FormPipeline evs"
  using assms
  by (auto simp: parseQueryString_def await_def call_def log_def Let_def pipeline_ran_def
      split: option.splits sum.splits prod.splits)

text \<open>
  Claim C1, as stated, fails: the builder awaits the params pipeline before it starts
  the query-string pipeline, and that one before the form pipeline. With schemas for
  all three pipelines and a params schema that rejects, the builder rejects with the
  params error and neither the query-string pipeline nor the form pipeline runs; with
  the same request and a params schema that accepts, both run.
\<close>

theorem independence_counterexample:
  "fst (createRequestContext test_factory_options test_args (Some test_options) test_state) =
     Inl (Error ''Several issues were found while trying to parse the params.'')
 \<and> trace (snd (createRequestContext test_factory_options test_args (Some test_options)
       test_state)) =
     [ConfiguratorCalled, SafeParseCalled ParamsPipeline (JRef 1)]
 \<and> \<not> pipeline_ran QueryStringPipeline
       (trace (snd (createRequestContext test_factory_options test_args (Some test_options)
          test_state)))
 \<and> \<not> pipeline_ran FormPipeline
       (trace (snd (createRequestContext test_factory_options test_args (Some test_options)
          test_state)))
 \<and> pipeline_ran QueryStringPipeline
       (trace (snd (createRequestContext test_factory_options test_args
          (Some (test_options\<lparr>paramsSchema := Schema accept_all\<rparr>)) test_state)))
 \<and> pipeline_ran FormPipeline
       (trace (snd (createRequestContext test_factory_options test_args
          (Some (test_options\<lparr>paramsSchema := Schema accept_all\<rparr>)) test_state)))"
  by (simp add: createRequestContext_def test_factory_options_def test_options_def
      test_args_def test_request_def test_state_def getter_configurator_def
      accept_all_def reject_all_def schema_option_def parser_option_def
      parseParams_def parseQueryString_def parseForm_def attach_def set_context_def
      assign_prop_def read_prop_def await_def call_def log_def Let_def pipeline_ran_def)

text \<open>
  Claim C1, amended. The builder runs the pipelines in the order params, query string,
  form, each one awaited before the schema of the next is unwrapped. The first pipeline
  that fails ends the builder: the builder rejects with that pipeline's error, in the
  state that pipeline left, so the pipelines after it do not run (they add no event to
  the trace), while the pipelines before it have completed.
\<close>

theorem first_failure_ends:
  assumes "configurator fo args options (heap st) = (Inr ctx, h0)"
    and "unwrapSchema (schema_option paramsSchema options)
           \<lparr>heap = h0, trace = trace st @ [ConfiguratorCalled]\<rparr> = (Inr ps, st2)"
  shows "(parseParams args ps ctx (onParamsError fo) st2 = (Inl e, st3) \<longrightarrow>
            createRequestContext fo args options st = (Inl e, st3)
          \<and> (\<exists>evs. trace st3 = trace st @ evs
                \<and> \<not> pipeline_ran QueryStringPipeline evs \<and> \<not> pipeline_ran FormPipeline evs))
       \<and> (parseParams args ps ctx (onParamsError fo) st2 = (Inr pv, st3) \<and>
          unwrapSchema (schema_option queryStringSchema options) st3 = (Inr qs, st4) \<and>
          parseQueryString args qs ctx (onQueryStringError fo) st4 = (Inl e, st5) \<longrightarrow>
            createRequestContext fo args options st = (Inl e, st5)
          \<and> (\<exists>evs. trace st5 = trace st @ evs \<and> \<not> pipeline_ran FormPipeline evs))
       \<and> (parseParams args ps ctx (onParamsError fo) st2 = (Inr pv, st3) \<and>
          unwrapSchema (schema_option queryStringSchema options) st3 = (Inr qs, st4) \<and>
          parseQueryString args qs ctx (onQueryStringError fo) st4 = (Inr qv, st5) \<and>
          unwrapSchema (schema_option formSchema options) st5 = (Inr fs, st6) \<and>
          parseForm args fs ctx (onFormError fo) (parser_option options) st6 = (Inl e, st7) \<longrightarrow>
            createRequestContext fo args options st = (Inl e, st7))"
proof (intro conjI impI)
  let ?st1 = "\<lparr>heap = h0, trace = trace st @ [ConfiguratorCalled]\<rparr>"
  have cfg: "call ConfiguratorCalled (configurator fo args options) st = (Inr ctx, ?st1)"
    using assms(1) by (simp add: call_def)
  obtain evs2 where evs2: "trace st2 = trace ?st1 @ evs2" "\<forall>p. \<not> pipeline_ran p evs2"
    using unwrapSchema_events [OF assms(2)] by blast
  {
    assume fail: "parseParams args ps ctx (onParamsError fo) st2 = (Inl e, st3)"
    show "createRequestContext fo args options st = (Inl e, st3)"
      using cfg assms(2) fail by (simp add: createRequestContext_def await_def)
    obtain evs3 where evs3: "trace st3 = trace st2 @ evs3"
        "\<not> pipeline_ran QueryStringPipeline evs3" "\<not> pipeline_ran FormPipeline evs3"
      using parseParams_events [OF fail] by blast
    have "trace st3 = trace st @ ([ConfiguratorCalled] @ evs2 @ evs3)"
      using evs2(1) evs3(1) by simp
    moreover have "\<not> pipeline_ran QueryStringPipeline ([ConfiguratorCalled] @ evs2 @ evs3)"
      using evs2(2) evs3(2) by (simp add: pipeline_ran_append) (simp add: pipeline_ran_def)
    moreover have "\<not> pipeline_ran FormPipeline ([ConfiguratorCalled] @ evs2 @ evs3)"
      using evs2(2) evs3(3) by (simp add: pipeline_ran_append) (simp add: pipeline_ran_def)
    ultimately show "\<exists>evs. trace st3 = trace st @ evs
        \<and> \<not> pipeline_ran QueryStringPipeline evs \<and> \<not> pipeline_ran FormPipeline evs"
      by blast
  }
  {
    assume run: "parseParams args ps ctx (onParamsError fo) st2 = (Inr pv, st3) \<and>
          unwrapSchema (schema_option queryStringSchema options) st3 = (Inr qs, st4) \<and>
          parseQueryString args qs ctx (onQueryStringError fo) st4 = (Inl e, st5)"
    then have p: "parseParams args ps ctx (onParamsError fo) st2 = (Inr pv, st3)"
      and u: "unwrapSchema (schema_option queryStringSchema options) st3 = (Inr qs, st4)"
      and q: "parseQueryString args qs ctx (onQueryStringError fo) st4 = (Inl e, st5)"
      by simp_all
    show "createRequestContext fo args options st = (Inl e, st5)"
      using cfg assms(2) p u q by (simp add: createRequestContext_def await_def)
    obtain evs3 where evs3: "trace st3 = trace st2 @ evs3" "\<not> pipeline_ran FormPipeline evs3"
      using parseParams_events [OF p] by blast
    obtain evs4 where evs4: "trace st4 = trace st3 @ evs4" "\<forall>p. \<not> pipeline_ran p evs4"
      using unwrapSchema_events [OF u] by blast
    obtain evs5 where evs5: "trace st5 = trace st4 @ evs5" "\<not> pipeline_ran FormPipeline evs5"
      using parseQueryString_events [OF q] by blast
    have "trace st5 = trace st @ ([ConfiguratorCalled] @ evs2 @ evs3 @ evs4 @ evs5)"
      using evs2(1) evs3(1) evs4(1) evs5(1) by simp
    moreover have
      "\<not> pipeline_ran FormPipeline ([ConfiguratorCalled] @ evs2 @ evs3 @ evs4 @ evs5)"
      using evs2(2) evs3(2) evs4(2) evs5(2)
      by (simp add: pipeline_ran_append) (simp add: pipeline_ran_def)
    ultimately show "\<exists>evs. trace st5 = trace st @ evs \<and> \<not> pipeline_ran FormPipeline evs"
      by blast
  }
  {
    assume "parseParams args ps ctx (onParamsError fo) st2 = (Inr pv, st3) \<and>
          unwrapSchema (schema_option queryStringSchema options) st3 = (Inr qs, st4) \<and>
          parseQueryString args qs ctx (onQueryStringError fo) st4 = (Inr qv, st5) \<and>
          unwrapSchema (schema_option formSchema options) st5 = (Inr fs, st6) \<and>
          parseForm args fs ctx (onFormError fo) (parser_option options) st6 = (Inl e, st7)"
    then show "createRequestContext fo args options st = (Inl e, st7)"
      using cfg assms(2) by (simp add: createRequestContext_def await_def)
  }
qed

theorem first_failure_ends_witness:
  "createRequestContext test_factory_options test_args (Some test_options) test_state =
     (Inl (Error ''Several issues were found while trying to parse the params.''),
      \<lparr>heap = (heap test_state)(2 := [(''test'', Accessor 0 (JStr ''test''))]),
       trace = [ConfiguratorCalled, SafeParseCalled ParamsPipeline (JRef 1)]\<rparr>)
 \<and> fst (createRequestContext test_factory_options test_args
       (Some (test_options\<lparr>paramsSchema := Schema accept_all,
                queryStringSchema := Schema reject_all\<rparr>)) test_state) =
     Inl (Error ''Several issues were found while trying to parse the query string.'')
 \<and> fst (createRequestContext test_factory_options test_args
       (Some (test_options\<lparr>paramsSchema := Schema accept_all,
                formSchema := Schema reject_all\<rparr>)) test_state) =
     Inl (Error ''Several issues were found while trying to parse the form data.'')"
proof -
  let ?h0 = "(heap test_state)(2 := [(''test'', Accessor 0 (JStr ''test''))])"
  let ?st1 = "\<lparr>heap = ?h0, trace = trace test_state @ [ConfiguratorCalled]\<rparr>"
  let ?st2 = "\<lparr>heap = ?h0, trace = [ConfiguratorCalled]\<rparr>"
  let ?st3 = "\<lparr>heap = ?h0,
              trace = [ConfiguratorCalled, SafeParseCalled ParamsPipeline (JRef 1)]\<rparr>"
  let ?qobj = "query_object [(''page'', ''1''), (''size'', ''25''), (''sort'', ''asc'')]"
  let ?st5 = "\<lparr>heap = ?h0,
              trace = [ConfiguratorCalled, SafeParseCalled ParamsPipeline (JRef 1),
                       SafeParseCalled QueryStringPipeline ?qobj]\<rparr>"
  let ?fobj = "form_object [(''name'', JStr ''Jimmy''), (''age'', JStr ''5'')]"
  let ?st7 = "\<lparr>heap = ?h0,
              trace = [ConfiguratorCalled, SafeParseCalled ParamsPipeline (JRef 1),
                       SafeParseCalled QueryStringPipeline ?qobj,
                       RequestFormDataCalled, SafeParseCalled FormPipeline ?fobj]\<rparr>"
  let ?opts2 = "test_options\<lparr>paramsSchema := Schema accept_all,
                  queryStringSchema := Schema reject_all\<rparr>"
  let ?opts3 = "test_options\<lparr>paramsSchema := Schema accept_all,
                  formSchema := Schema reject_all\<rparr>"
  note defs = test_factory_options_def test_options_def test_args_def test_request_def
    test_state_def getter_configurator_def accept_all_def reject_all_def schema_option_def
    parser_option_def parseParams_def parseQueryString_def parseForm_def await_def
    call_def log_def Let_def
  have cfg: "configurator test_factory_options test_args opts (heap test_state) = (Inr 2, ?h0)"
    for opts
    by (simp add: defs)
  have u1: "unwrapSchema (schema_option paramsSchema (Some test_options)) ?st1 =
              (Inr (Some reject_all), ?st2)"
    by (simp add: defs)
  have p1: "parseParams test_args (Some reject_all) 2 (onParamsError test_factory_options) ?st2 =
              (Inl (Error ''Several issues were found while trying to parse the params.''), ?st3)"
    by (simp add: defs)
  have one: "createRequestContext test_factory_options test_args (Some test_options) test_state =
      (Inl (Error ''Several issues were found while trying to parse the params.''), ?st3)"
    using first_failure_ends [OF cfg u1, THEN conjunct1, rule_format, OF p1] by simp
  have u2: "unwrapSchema (schema_option paramsSchema (Some ?opts2)) ?st1 =
              (Inr (Some accept_all), ?st2)"
    by (simp add: defs)
  have p2: "parseParams test_args (Some accept_all) 2 (onParamsError test_factory_options) ?st2 =
              (Inr (JRef 1), ?st3)"
    by (simp add: defs)
  have uq2: "unwrapSchema (schema_option queryStringSchema (Some ?opts2)) ?st3 =
              (Inr (Some reject_all), ?st3)"
    by (simp add: defs)
  have q2: "parseQueryString test_args (Some reject_all) 2
              (onQueryStringError test_factory_options) ?st3 =
              (Inl (Error ''Several issues were found while trying to parse the query string.''),
               ?st5)"
    by (simp add: defs)
  have two: "createRequestContext test_factory_options test_args (Some ?opts2) test_state =
      (Inl (Error ''Several issues were found while trying to parse the query string.''), ?st5)"
    using first_failure_ends [OF cfg u2, THEN conjunct2, THEN conjunct1, rule_format,
        OF conjI [OF p2 conjI [OF uq2 q2]]] by simp
  have u3: "unwrapSchema (schema_option paramsSchema (Some ?opts3)) ?st1 =
              (Inr (Some accept_all), ?st2)"
    by (simp add: defs)
  have uq3: "unwrapSchema (schema_option queryStringSchema (Some ?opts3)) ?st3 =
              (Inr (Some accept_all), ?st3)"
    by (simp add: defs)
  have q3: "parseQueryString test_args (Some accept_all) 2
              (onQueryStringError test_factory_options) ?st3 = (Inr ?qobj, ?st5)"
    by (simp add: defs)
  have uf3: "unwrapSchema (schema_option formSchema (Some ?opts3)) ?st5 =
              (Inr (Some reject_all), ?st5)"
    by (simp add: defs)
  have f3: "parseForm test_args (Some reject_all) 2 (onFormError test_factory_options)
              (parser_option (Some ?opts3)) ?st5 =
              (Inl (Error ''Several issues were found while trying to parse the form data.''),
               ?st7)"
    by (simp add: defs)
  have three: "createRequestContext test_factory_options test_args (Some ?opts3) test_state =
      (Inl (Error ''Several issues were found while trying to parse the form data.''), ?st7)"
    using first_failure_ends [OF cfg u3, THEN conjunct2, THEN conjunct2, rule_format,
        OF conjI [OF p2 conjI [OF uq3 conjI [OF q3 conjI [OF uf3 f3]]]]] by simp
  show ?thesis
    using one two three by simp
qed

section \<open>Attaching the results to the context\<close>

lemma map_of_put_field: "map_of (put_field fs k v) = (map_of fs)(k \<mapsto> v)"
  by (induction fs) auto

lemma set_context_Inr:
  assumes "set_context a k v st = (Inr u, st')"
  shows "st' = st\<lparr>heap := (heap st)(a := put_field (heap st a) k (Data v))\<rparr>"
proof (cases "map_of (heap st a) k")
  case None
  with assms show ?thesis
    by (simp add: set_context_def assign_prop_def read_prop_def await_def map_of_put_field)
next
  case (Some pr)
  with assms show ?thesis
    by (cases pr)
      (simp_all add: set_context_def assign_prop_def read_prop_def await_def map_of_put_field)
qed

lemma attach_Inr:
  assumes "attach a fv pv qv st = (Inr r, st')"
  shows "r = a \<and> trace st' = trace st
       \<and> heap st' = (heap st)(a :=
           put_field (put_field (put_field (heap st a) ''form'' (Data fv))
             ''params'' (Data pv)) ''queryString'' (Data qv))"
proof -
  obtain r1 st1 where s1: "set_context a ''form'' fv st = (r1, st1)"
    by (cases "set_context a ''form'' fv st")
  obtain r2 st2 where s2: "set_context a ''params'' pv st1 = (r2, st2)"
    by (cases "set_context a ''params'' pv st1")
  obtain r3 st3 where s3: "set_context a ''queryString'' qv st2 = (r3, st3)"
    by (cases "set_context a ''queryString'' qv st2")
  from assms s1 obtain u1 where r1: "r1 = Inr u1"
    by (cases r1) (simp_all add: attach_def await_def)
  from assms s1 s2 r1 obtain u2 where r2: "r2 = Inr u2"
    by (cases r2) (simp_all add: attach_def await_def)
  from assms s1 s2 s3 r1 r2 obtain u3 where r3: "r3 = Inr u3"
    by (cases r3) (simp_all add: attach_def await_def)
  from assms s1 s2 s3 r1 r2 r3 have res: "r = a" "st' = st3"
    by (simp_all add: attach_def await_def)
  note e1 = set_context_Inr [OF s1 [unfolded r1]]
  note e2 = set_context_Inr [OF s2 [unfolded r2]]
  note e3 = set_context_Inr [OF s3 [unfolded r3]]
  show ?thesis
    using res e1 e2 e3 by simp
qed

text \<open>The three assignments succeed unless an accessor stands under one of the keys.\<close>

lemma set_context_data:
  assumes "\<forall>g gv. map_of (heap st a) k \<noteq> Some (Accessor g gv)"
  shows "set_context a k v st =
           (Inr (), st\<lparr>heap := (heap st)(a := put_field (heap st a) k (Data v))\<rparr>)"
proof (cases "map_of (heap st a) k")
  case None
  then show ?thesis
    by (simp add: set_context_def assign_prop_def read_prop_def await_def map_of_put_field)
next
  case (Some pr)
  with assms show ?thesis
    by (cases pr)
      (simp_all add: set_context_def assign_prop_def read_prop_def await_def map_of_put_field)
qed

lemma attach_succeeds:
  assumes "\<forall>k \<in> {''form'', ''params'', ''queryString''}.
             \<forall>g gv. map_of (heap st a) k \<noteq> Some (Accessor g gv)"
  shows "attach a fv pv qv st =
           (Inr a, st\<lparr>heap := (heap st)(a :=
              put_field (put_field (put_field (heap st a) ''form'' (Data fv))
                ''params'' (Data pv)) ''queryString'' (Data qv))\<rparr>)"
proof -
  let ?f1 = "put_field (heap st a) ''form'' (Data fv)"
  let ?f2 = "put_field ?f1 ''params'' (Data pv)"
  let ?f3 = "put_field ?f2 ''queryString'' (Data qv)"
  let ?st1 = "st\<lparr>heap := (heap st)(a := ?f1)\<rparr>"
  let ?st2 = "st\<lparr>heap := (heap st)(a := ?f2)\<rparr>"
  let ?st3 = "st\<lparr>heap := (heap st)(a := ?f3)\<rparr>"
  have s1: "set_context a ''form'' fv st = (Inr (), ?st1)"
    using set_context_data [of st a "''form''" fv] assms by simp
  have s2: "set_context a ''params'' pv ?st1 = (Inr (), ?st2)"
    using set_context_data [of ?st1 a "''params''" pv] assms
    by (simp add: map_of_put_field)
  have s3: "set_context a ''queryString'' qv ?st2 = (Inr (), ?st3)"
    using set_context_data [of ?st2 a "''queryString''" qv] assms
    by (simp add: map_of_put_field)
  note a1 = await_Inr [where m = "set_context a ''form'' fv" and st = st, OF s1]
  note a2 = await_Inr [where m = "set_context a ''params'' pv" and st = ?st1, OF s2]
  note a3 = await_Inr [where m = "set_context a ''queryString'' qv" and st = ?st2, OF s3]
  show ?thesis
    unfolding attach_def by (simp only: a1 a2 a3)
qed

text \<open>What a run of the builder that returns a context went through.\<close>

lemma createRequestContext_Inr:
  assumes "createRequestContext fo args options st = (Inr r, st')"
  shows "\<exists>ctx h0 ps st2 pv st3 qs st4 qv st5 fs st6 fv st7.
      configurator fo args options (heap st) = (Inr ctx, h0)
    \<and> unwrapSchema (schema_option paramsSchema options)
        \<lparr>heap = h0, trace = trace st @ [ConfiguratorCalled]\<rparr> = (Inr ps, st2)
    \<and> parseParams args ps ctx (onParamsError fo) st2 = (Inr pv, st3)
    \<and> unwrapSchema (schema_option queryStringSchema options) st3 = (Inr qs, st4)
    \<and> parseQueryString args qs ctx (onQueryStringError fo) st4 = (Inr qv, st5)
    \<and> unwrapSchema (schema_option formSchema options) st5 = (Inr fs, st6)
    \<and> parseForm args fs ctx (onFormError fo) (parser_option options) st6 = (Inr fv, st7)
    \<and> attach ctx fv pv qv st7 = (Inr r, st')"
  using assms
  by (auto simp: createRequestContext_def await_def call_def
      split: prod.splits sum.splits)

lemma createRequestContext_returns:
  assumes "configurator fo args options (heap st) = (Inr ctx, h0)"
    and "unwrapSchema (schema_option paramsSchema options)
           \<lparr>heap = h0, trace = trace st @ [ConfiguratorCalled]\<rparr> = (Inr ps, st2)"
    and "parseParams args ps ctx (onParamsError fo) st2 = (Inr pv, st3)"
    and "unwrapSchema (schema_option queryStringSchema options) st3 = (Inr qs, st4)"
    and "parseQueryString args qs ctx (onQueryStringError fo) st4 = (Inr qv, st5)"
    and "unwrapSchema (schema_option formSchema options) st5 = (Inr fs, st6)"
    and "parseForm args fs ctx (onFormError fo) (parser_option options) st6 = (Inr fv, st7)"
    and "\<forall>k \<in> {''form'', ''params'', ''queryString''}.
           \<forall>g gv. map_of (heap st7 ctx) k \<noteq> Some (Accessor g gv)"
  shows "createRequestContext fo args options st =
           (Inr ctx, st7\<lparr>heap := (heap st7)(ctx :=
              put_field (put_field (put_field (heap st7 ctx) ''form'' (Data fv))
                ''params'' (Data pv)) ''queryString'' (Data qv))\<rparr>)"
  using assms(1-7) attach_succeeds [OF assms(8), of fv pv qv]
  by (simp add: createRequestContext_def await_def call_def)

lemma returned_context:
  assumes "createRequestContext fo args options st = (Inr r, st')"
  shows "\<exists>h0 ps st2 pv st3 qs st4 qv st5 fs st6 fv st7.
      configurator fo args options (heap st) = (Inr r, h0)
    \<and> unwrapSchema (schema_option paramsSchema options)
        \<lparr>heap = h0, trace = trace st @ [ConfiguratorCalled]\<rparr> = (Inr ps, st2)
    \<and> parseParams args ps r (onParamsError fo) st2 = (Inr pv, st3)
    \<and> unwrapSchema (schema_option queryStringSchema options) st3 = (Inr qs, st4)
    \<and> parseQueryString args qs r (onQueryStringError fo) st4 = (Inr qv, st5)
    \<and> unwrapSchema (schema_option formSchema options) st5 = (Inr fs, st6)
    \<and> parseForm args fs r (onFormError fo) (parser_option options) st6 = (Inr fv, st7)
    \<and> map_of (heap st' r) ''form'' = Some (Data fv)
    \<and> map_of (heap st' r) ''params'' = Some (Data pv)
    \<and> map_of (heap st' r) ''queryString'' = Some (Data qv)
    \<and> (\<forall>k. k \<notin> {''form'', ''params'', ''queryString''} \<longrightarrow>
          map_of (heap st' r) k = map_of (heap st7 r) k)
    \<and> (\<forall>a. a \<noteq> r \<longrightarrow> heap st' a = heap st7 a)
    \<and> trace st' = trace st7"
proof -
  from createRequestContext_Inr [OF assms]
  obtain ctx h0 ps st2 pv st3 qs st4 qv st5 fs st6 fv st7 where run:
    "configurator fo args options (heap st) = (Inr ctx, h0)"
    "unwrapSchema (schema_option paramsSchema options)
        \<lparr>heap = h0, trace = trace st @ [ConfiguratorCalled]\<rparr> = (Inr ps, st2)"
    "parseParams args ps ctx (onParamsError fo) st2 = (Inr pv, st3)"
    "unwrapSchema (schema_option queryStringSchema options) st3 = (Inr qs, st4)"
    "parseQueryString args qs ctx (onQueryStringError fo) st4 = (Inr qv, st5)"
    "unwrapSchema (schema_option formSchema options) st5 = (Inr fs, st6)"
    "parseForm args fs ctx (onFormError fo) (parser_option options) st6 = (Inr fv, st7)"
    and att: "attach ctx fv pv qv st7 = (Inr r, st')"
    by blast
  from attach_Inr [OF att] have r: "r = ctx" and tr: "trace st' = trace st7"
    and hp: "heap st' = (heap st7)(ctx :=
           put_field (put_field (put_field (heap st7 ctx) ''form'' (Data fv))
             ''params'' (Data pv)) ''queryString'' (Data qv))"
    by simp_all
  have "map_of (heap st' r) ''form'' = Some (Data fv)"
    and "map_of (heap st' r) ''params'' = Some (Data pv)"
    and "map_of (heap st' r) ''queryString'' = Some (Data qv)"
    and "\<forall>k. k \<notin> {''form'', ''params'', ''queryString''} \<longrightarrow>
          map_of (heap st' r) k = map_of (heap st7 r) k"
    and "\<forall>a. a \<noteq> r \<longrightarrow> heap st' a = heap st7 a"
    using r hp by (simp_all add: map_of_put_field)
  with run r tr show ?thesis
    by blast
qed

text \<open>
  Claim C8. Whenever the builder returns a context, the object it returns is the very
  object the configurator returned (the same address). The builder has stored the
  results of the form, params and query-string pipelines in that object as the data
  properties \<open>form\<close>, \<open>params\<close> and \<open>queryString\<close>; compared with the state the last
  pipeline left, every other property of the object is the same (an accessor is still
  an accessor), every other object is untouched, and the trace is the same: attaching
  the results evaluates no getter. And the builder does return the configurator's
  object, changed in place in this way, whenever the configurator and the three
  pipelines succeed and no accessor stands under one of the three keys.
\<close>

theorem context_attached:
  "(createRequestContext fo args options st = (Inr r, st') \<longrightarrow>
     (\<exists>h0 ps st2 pv st3 qs st4 qv st5 fs st6 fv st7.
        configurator fo args options (heap st) = (Inr r, h0)
      \<and> unwrapSchema (schema_option paramsSchema options)
          \<lparr>heap = h0, trace = trace st @ [ConfiguratorCalled]\<rparr> = (Inr ps, st2)
      \<and> parseParams args ps r (onParamsError fo) st2 = (Inr pv, st3)
      \<and> unwrapSchema (schema_option queryStringSchema options) st3 = (Inr qs, st4)
      \<and> parseQueryString args qs r (onQueryStringError fo) st4 = (Inr qv, st5)
      \<and> unwrapSchema (schema_option formSchema options) st5 = (Inr fs, st6)
      \<and> parseForm args fs r (onFormError fo) (parser_option options) st6 = (Inr fv, st7)
      \<and> map_of (heap st' r) ''form'' = Some (Data fv)
      \<and> map_of (heap st' r) ''params'' = Some (Data pv)
      \<and> map_of (heap st' r) ''queryString'' = Some (Data qv)
      \<and> (\<forall>k. k \<notin> {''form'', ''params'', ''queryString''} \<longrightarrow>
            map_of (heap st' r) k = map_of (heap st7 r) k)
      \<and> (\<forall>a. a \<noteq> r \<longrightarrow> heap st' a = heap st7 a)
      \<and> trace st' = trace st7))
 \<and> (configurator fo args options (heap st) = (Inr ctx, c0)
    \<and> unwrapSchema (schema_option paramsSchema options)
        \<lparr>heap = c0, trace = trace st @ [ConfiguratorCalled]\<rparr> = (Inr p_schema, s2)
    \<and> parseParams args p_schema ctx (onParamsError fo) s2 = (Inr p_value, s3)
    \<and> unwrapSchema (schema_option queryStringSchema options) s3 = (Inr q_schema, s4)
    \<and> parseQueryString args q_schema ctx (onQueryStringError fo) s4 = (Inr q_value, s5)
    \<and> unwrapSchema (schema_option formSchema options) s5 = (Inr f_schema, s6)
    \<and> parseForm args f_schema ctx (onFormError fo) (parser_option options) s6 =
        (Inr f_value, s7)
    \<and> (\<forall>k \<in> {''form'', ''params'', ''queryString''}.
          \<forall>g gv. map_of (heap s7 ctx) k \<noteq> Some (Accessor g gv)) \<longrightarrow>
      createRequestContext fo args options st =
        (Inr ctx, s7\<lparr>heap := (heap s7)(ctx :=
           put_field (put_field (put_field (heap s7 ctx) ''form'' (Data f_value))
             ''params'' (Data p_value)) ''queryString'' (Data q_value))\<rparr>))"
proof (intro conjI impI)
  assume "createRequestContext fo args options st = (Inr r, st')"
  then show "\<exists>h0 ps st2 pv st3 qs st4 qv st5 fs st6 fv st7.
        configurator fo args options (heap st) = (Inr r, h0)
      \<and> unwrapSchema (schema_option paramsSchema options)
          \<lparr>heap = h0, trace = trace st @ [ConfiguratorCalled]\<rparr> = (Inr ps, st2)
      \<and> parseParams args ps r (onParamsError fo) st2 = (Inr pv, st3)
      \<and> unwrapSchema (schema_option queryStringSchema options) st3 = (Inr qs, st4)
      \<and> parseQueryString args qs r (onQueryStringError fo) st4 = (Inr qv, st5)
      \<and> unwrapSchema (schema_option formSchema options) st5 = (Inr fs, st6)
      \<and> parseForm args fs r (onFormError fo) (parser_option options) st6 = (Inr fv, st7)
      \<and> map_of (heap st' r) ''form'' = Some (Data fv)
      \<and> map_of (heap st' r) ''params'' = Some (Data pv)
      \<and> map_of (heap st' r) ''queryString'' = Some (Data qv)
      \<and> (\<forall>k. k \<notin> {''form'', ''params'', ''queryString''} \<longrightarrow>
            map_of (heap st' r) k = map_of (heap st7 r) k)
      \<and> (\<forall>a. a \<noteq> r \<longrightarrow> heap st' a = heap st7 a)
      \<and> trace st' = trace st7"
    by (rule returned_context)
next
  assume h: "configurator fo args options (heap st) = (Inr ctx, c0)
    \<and> unwrapSchema (schema_option paramsSchema options)
        \<lparr>heap = c0, trace = trace st @ [ConfiguratorCalled]\<rparr> = (Inr p_schema, s2)
    \<and> parseParams args p_schema ctx (onParamsError fo) s2 = (Inr p_value, s3)
    \<and> unwrapSchema (schema_option queryStringSchema options) s3 = (Inr q_schema, s4)
    \<and> parseQueryString args q_schema ctx (onQueryStringError fo) s4 = (Inr q_value, s5)
    \<and> unwrapSchema (schema_option formSchema options) s5 = (Inr f_schema, s6)
    \<and> parseForm args f_schema ctx (onFormError fo) (parser_option options) s6 =
        (Inr f_value, s7)
    \<and> (\<forall>k \<in> {''form'', ''params'', ''queryString''}.
          \<forall>g gv. map_of (heap s7 ctx) k \<noteq> Some (Accessor g gv))"
  show "createRequestContext fo args options st =
        (Inr ctx, s7\<lparr>heap := (heap s7)(ctx :=
           put_field (put_field (put_field (heap s7 ctx) ''form'' (Data f_value))
             ''params'' (Data p_value)) ''queryString'' (Data q_value))\<rparr>)"
    by (rule createRequestContext_returns) (use h in blast)+
qed

theorem context_attached_witness:
  "createRequestContext test_factory_options test_args
     (Some (test_options\<lparr>paramsSchema := Schema accept_all\<rparr>)) test_state =
     (Inr 2,
      \<lparr>heap = (heap test_state)
         (2 := [(''test'', Accessor 0 (JStr ''test'')),
                (''form'', Data (JObj [(''name'', JStr ''Jimmy''), (''age'', JStr ''5'')])),
                (''params'', Data (JRef 1)),
                (''queryString'',
                 Data (JObj [(''page'', JStr ''1''), (''size'', JStr ''25''),
                             (''sort'', JStr ''asc'')]))]),
       trace =
         [ConfiguratorCalled,
          SafeParseCalled ParamsPipeline (JRef 1),
          SafeParseCalled QueryStringPipeline
            (JObj [(''page'', JStr ''1''), (''size'', JStr ''25''), (''sort'', JStr ''asc'')]),
          RequestFormDataCalled,
          SafeParseCalled FormPipeline
            (JObj [(''name'', JStr ''Jimmy''), (''age'', JStr ''5'')])]\<rparr>)
 \<and> configurator test_factory_options test_args
     (Some (test_options\<lparr>paramsSchema := Schema accept_all\<rparr>)) (heap test_state) =
     (Inr 2, (heap test_state)(2 := [(''test'', Accessor 0 (JStr ''test''))]))"
proof -
  let ?opts = "Some (test_options\<lparr>paramsSchema := Schema accept_all\<rparr>)"
  let ?qobj = "JObj [(''page'', JStr ''1''), (''size'', JStr ''25''), (''sort'', JStr ''asc'')]"
  let ?fobj = "JObj [(''name'', JStr ''Jimmy''), (''age'', JStr ''5'')]"
  let ?h0 = "(heap test_state)(2 := [(''test'', Accessor 0 (JStr ''test''))])"
  let ?st1 = "\<lparr>heap = ?h0, trace = trace test_state @ [ConfiguratorCalled]\<rparr>"
  let ?st3 = "\<lparr>heap = ?h0,
              trace = [ConfiguratorCalled, SafeParseCalled ParamsPipeline (JRef 1)]\<rparr>"
  let ?st5 = "\<lparr>heap = ?h0,
              trace = [ConfiguratorCalled, SafeParseCalled ParamsPipeline (JRef 1),
                       SafeParseCalled QueryStringPipeline ?qobj]\<rparr>"
  let ?st7 = "\<lparr>heap = ?h0,
              trace = [ConfiguratorCalled, SafeParseCalled ParamsPipeline (JRef 1),
                       SafeParseCalled QueryStringPipeline ?qobj,
                       RequestFormDataCalled, SafeParseCalled FormPipeline ?fobj]\<rparr>"
  have qobj: "query_object [(''page'', ''1''), (''size'', ''25''), (''sort'', ''asc'')] = ?qobj"
    by code_simp
  have fobj: "form_object [(''name'', JStr ''Jimmy''), (''age'', JStr ''5'')] = ?fobj"
    by code_simp
  note defs = test_factory_options_def test_options_def test_args_def test_request_def
    test_state_def getter_configurator_def accept_all_def schema_option_def
    parser_option_def parseParams_def parseQueryString_def parseForm_def await_def
    call_def log_def Let_def qobj fobj
  have cfg: "configurator test_factory_options test_args ?opts (heap test_state) = (Inr 2, ?h0)"
    by (simp add: defs)
  have u1: "unwrapSchema (schema_option paramsSchema ?opts) ?st1 = (Inr (Some accept_all), ?st1)"
    by (simp add: defs)
  have p: "parseParams test_args (Some accept_all) 2 (onParamsError test_factory_options) ?st1 =
      (Inr (JRef 1), ?st3)"
    by (simp add: defs)
  have u2: "unwrapSchema (schema_option queryStringSchema ?opts) ?st3 =
      (Inr (Some accept_all), ?st3)"
    by (simp add: defs)
  have q: "parseQueryString test_args (Some accept_all) 2
      (onQueryStringError test_factory_options) ?st3 = (Inr ?qobj, ?st5)"
    by (simp add: defs)
  have u3: "unwrapSchema (schema_option formSchema ?opts) ?st5 = (Inr (Some accept_all), ?st5)"
    by (simp add: defs)
  have f: "parseForm test_args (Some accept_all) 2 (onFormError test_factory_options)
      (parser_option ?opts) ?st5 = (Inr ?fobj, ?st7)"
    by (simp add: defs)
  have free: "\<forall>k \<in> {''form'', ''params'', ''queryString''}.
      \<forall>g gv. map_of (heap ?st7 2) k \<noteq> Some (Accessor g gv)"
    by simp
  from context_attached [THEN conjunct2, rule_format,
      OF conjI [OF cfg conjI [OF u1 conjI [OF p conjI [OF u2 conjI [OF q
        conjI [OF u3 conjI [OF f free]]]]]]]]
  have run: "createRequestContext test_factory_options test_args ?opts test_state =
     (Inr 2,
      \<lparr>heap = (heap test_state)
         (2 := [(''test'', Accessor 0 (JStr ''test'')), (''form'', Data ?fobj),
                (''params'', Data (JRef 1)), (''queryString'', Data ?qobj)]),
       trace =
         [ConfiguratorCalled, SafeParseCalled ParamsPipeline (JRef 1),
          SafeParseCalled QueryStringPipeline ?qobj, RequestFormDataCalled,
          SafeParseCalled FormPipeline ?fobj]\<rparr>)"
    by (simp add: test_state_def)
  then show ?thesis
    using cfg by simp
qed

section \<open>A request without schemas\<close>

lemma no_schemas_returned:
  assumes "schema_option formSchema options = NoSchema"
    and "schema_option paramsSchema options = NoSchema"
    and "schema_option queryStringSchema options = NoSchema"
    and "createRequestContext fo args options st = (Inr r, st')"
  shows "map_of (heap st' r) ''form'' = Some (Data JUndefined)
       \<and> map_of (heap st' r) ''queryString'' = Some (Data JUndefined)
       \<and> map_of (heap st' r) ''params'' = Some (Data (params args))"
proof -
  from createRequestContext_Inr [OF assms(4)]
  obtain ctx h0 ps st2 pv st3 qs st4 qv st5 fs st6 fv st7 where run:
    "unwrapSchema (schema_option paramsSchema options)
        \<lparr>heap = h0, trace = trace st @ [ConfiguratorCalled]\<rparr> = (Inr ps, st2)"
    "parseParams args ps ctx (onParamsError fo) st2 = (Inr pv, st3)"
    "unwrapSchema (schema_option queryStringSchema options) st3 = (Inr qs, st4)"
    "parseQueryString args qs ctx (onQueryStringError fo) st4 = (Inr qv, st5)"
    "unwrapSchema (schema_option formSchema options) st5 = (Inr fs, st6)"
    "parseForm args fs ctx (onFormError fo) (parser_option options) st6 = (Inr fv, st7)"
    and att: "attach ctx fv pv qv st7 = (Inr r, st')"
    by blast
  from run(1) assms(2) have "ps = None" by auto
  with run(2) have pv: "pv = params args" by (simp add: parseParams_def)
  from run(3) assms(3) have "qs = None" by auto
  with run(4) have qv: "qv = JUndefined" by (simp add: parseQueryString_def)
  from run(5) assms(1) have "fs = None" by auto
  with run(6) have fv: "fv = JUndefined" by (simp add: parseForm_def)
  from attach_Inr [OF att] pv qv fv show ?thesis
    by (simp add: map_of_put_field)
qed

text \<open>
  Claim C2. When no form schema, no params schema and no query-string schema is
  supplied, the context that the builder returns has \<open>form\<close> equal to \<open>undefined\<close>,
  \<open>queryString\<close> equal to \<open>undefined\<close>, and \<open>params\<close> equal to the value of
  \<open>args.params\<close> itself: for a path-parameter mapping at address \<open>a\<close> this is the
  reference \<open>JRef a\<close> to that very object, not a copy at another address. The builder
  returns such a context whenever the configurator returns an object that has no
  accessor under one of the three keys; it calls nothing but the configurator.
\<close>

theorem no_schemas:
  assumes "schema_option formSchema options = NoSchema"
    and "schema_option paramsSchema options = NoSchema"
    and "schema_option queryStringSchema options = NoSchema"
  shows "(createRequestContext fo args options st = (Inr r, st') \<longrightarrow>
            map_of (heap st' r) ''form'' = Some (Data JUndefined)
          \<and> map_of (heap st' r) ''queryString'' = Some (Data JUndefined)
          \<and> map_of (heap st' r) ''params'' = Some (Data (params args)))
       \<and> (configurator fo args options (heap st) = (Inr ctx, h0) \<and>
          (\<forall>k \<in> {''form'', ''params'', ''queryString''}.
             \<forall>g gv. map_of (h0 ctx) k \<noteq> Some (Accessor g gv)) \<longrightarrow>
            createRequestContext fo args options st =
              (Inr ctx,
               \<lparr>heap = h0(ctx :=
                  put_field (put_field (put_field (h0 ctx) ''form'' (Data JUndefined))
                    ''params'' (Data (params args))) ''queryString'' (Data JUndefined)),
                trace = trace st @ [ConfiguratorCalled]\<rparr>))"
proof (intro conjI impI)
  assume "createRequestContext fo args options st = (Inr r, st')"
  from no_schemas_returned [OF assms this]
  show "map_of (heap st' r) ''form'' = Some (Data JUndefined)"
    and "map_of (heap st' r) ''queryString'' = Some (Data JUndefined)"
    and "map_of (heap st' r) ''params'' = Some (Data (params args))"
    by simp_all
next
  let ?st1 = "\<lparr>heap = h0, trace = trace st @ [ConfiguratorCalled]\<rparr>"
  assume h: "configurator fo args options (heap st) = (Inr ctx, h0) \<and>
          (\<forall>k \<in> {''form'', ''params'', ''queryString''}.
             \<forall>g gv. map_of (h0 ctx) k \<noteq> Some (Accessor g gv))"
  have "createRequestContext fo args options st =
      (Inr ctx, ?st1\<lparr>heap := (heap ?st1)(ctx :=
         put_field (put_field (put_field (heap ?st1 ctx) ''form'' (Data JUndefined))
           ''params'' (Data (params args))) ''queryString'' (Data JUndefined))\<rparr>)"
  proof (rule createRequestContext_returns)
    show "configurator fo args options (heap st) = (Inr ctx, h0)"
      using h by simp
    show "unwrapSchema (schema_option paramsSchema options) ?st1 = (Inr None, ?st1)"
      by (simp add: assms)
    show "parseParams args None ctx (onParamsError fo) ?st1 = (Inr (params args), ?st1)"
      by (simp add: parseParams_def)
    show "unwrapSchema (schema_option queryStringSchema options) ?st1 = (Inr None, ?st1)"
      by (simp add: assms)
    show "parseQueryString args None ctx (onQueryStringError fo) ?st1 = (Inr JUndefined, ?st1)"
      by (simp add: parseQueryString_def)
    show "unwrapSchema (schema_option formSchema options) ?st1 = (Inr None, ?st1)"
      by (simp add: assms)
    show "parseForm args None ctx (onFormError fo) (parser_option options) ?st1 =
        (Inr JUndefined, ?st1)"
      by (simp add: parseForm_def)
    show "\<forall>k \<in> {''form'', ''params'', ''queryString''}.
        \<forall>g gv. map_of (heap ?st1 ctx) k \<noteq> Some (Accessor g gv)"
      using h by simp
  qed
  then show "createRequestContext fo args options st =
      (Inr ctx,
       \<lparr>heap = h0(ctx :=
          put_field (put_field (put_field (h0 ctx) ''form'' (Data JUndefined))
            ''params'' (Data (params args))) ''queryString'' (Data JUndefined)),
        trace = trace st @ [ConfiguratorCalled]\<rparr>)"
    by simp
qed

theorem no_schemas_witness:
  "schema_option formSchema None = NoSchema
 \<and> schema_option paramsSchema None = NoSchema
 \<and> schema_option queryStringSchema None = NoSchema
 \<and> configurator test_factory_options test_args None (heap test_state) =
     (Inr 2, (heap test_state)(2 := [(''test'', Accessor 0 (JStr ''test''))]))
 \<and> params test_args = JRef 1
 \<and> createRequestContext test_factory_options test_args None test_state =
     (Inr 2,
      \<lparr>heap = (heap test_state)
         (2 := [(''test'', Accessor 0 (JStr ''test'')), (''form'', Data JUndefined),
                (''params'', Data (JRef 1)), (''queryString'', Data JUndefined)]),
       trace = [ConfiguratorCalled]\<rparr>)
 \<and> map_of (heap (snd (createRequestContext test_factory_options test_args None test_state)) 2)
      ''params'' = Some (Data (JRef 1))
 \<and> map_of (heap (snd (createRequestContext test_factory_options test_args None test_state)) 2)
      ''form'' = Some (Data JUndefined)
 \<and> map_of (heap (snd (createRequestContext test_factory_options test_args None test_state)) 2)
      ''queryString'' = Some (Data JUndefined)"
proof -
  let ?h0 = "(heap test_state)(2 := [(''test'', Accessor 0 (JStr ''test''))])"
  have none: "schema_option f None = NoSchema" for f
    by (simp add: schema_option_def)
  have cfg: "configurator test_factory_options test_args None (heap test_state) = (Inr 2, ?h0)"
    by (simp add: test_factory_options_def getter_configurator_def)
  have free: "\<forall>k \<in> {''form'', ''params'', ''queryString''}.
      \<forall>g gv. map_of (?h0 2) k \<noteq> Some (Accessor g gv)"
    by simp
  note both = no_schemas [OF none none none, of test_factory_options test_args test_state]
  from both [THEN conjunct2, rule_format, OF conjI [OF cfg free]]
  have run: "createRequestContext test_factory_options test_args None test_state =
     (Inr 2,
      \<lparr>heap = (heap test_state)
         (2 := [(''test'', Accessor 0 (JStr ''test'')), (''form'', Data JUndefined),
                (''params'', Data (JRef 1)), (''queryString'', Data JUndefined)]),
       trace = [ConfiguratorCalled]\<rparr>)"
    by (simp add: test_args_def test_state_def)
  from both [THEN conjunct1, rule_format, OF run] run none cfg
  show ?thesis
    by (simp add: test_args_def)
qed

section \<open>The enabled flag of the discriminated union\<close>

lemma put_field_same: "map_of fs k = Some v \<Longrightarrow> put_field fs k v = fs"
  by (induction fs) (auto split: if_splits)

lemma inherited_enabled: "inherited ''enabled'' = JUndefined"
  by (simp add: inherited_def object_prototype_names_def)

lemma array_index_enabled: "array_index ''enabled'' = None"
  by (simp add: array_index_def is_digit_def)

text \<open>A value whose \<open>enabled\<close> member is a boolean or a string is an object that has the
  property; its own properties hold that member.\<close>

lemma read_enabled:
  assumes "js_read h val ''enabled'' = v" and "v = JBool b \<or> v = JStr s"
  shows "objectHasEnabledProperty h val \<and> map_of (own_props h val) ''enabled'' = Some v"
proof (cases val)
  case (JObj fs)
  with assms inherited_enabled show ?thesis
    by (auto simp: objectHasEnabledProperty_def rev_image_eqI split: option.splits
        dest!: map_of_SomeD)
next
  case (JRef a)
  have "map_of (map (\<lambda>(k, p). (k, prop_value p)) fs) k = map_option prop_value (map_of fs k)"
    for fs :: "(string \<times> jsprop) list" and k
    by (induction fs) auto
  with JRef assms inherited_enabled show ?thesis
    by (auto simp: objectHasEnabledProperty_def rev_image_eqI split: option.splits
        dest!: map_of_SomeD)
next
  case (JArr xs)
  with assms inherited_enabled array_index_enabled show ?thesis by auto
next
  case (JStr t)
  with assms inherited_enabled array_index_enabled show ?thesis by auto
qed (use assms inherited_enabled in auto)

lemma union_enabled_true:
  assumes "normalize_enabled h val = JObj fs" and "map_of fs ''enabled'' = Some (JBool True)"
  shows "zodDiscriminatedEnabledUnion shape h val =
           z_object (put_field shape ''enabled'' (ZLiteral (JBool True))) h (JObj fs)"
  using assms
  by (simp add: zodDiscriminatedEnabledUnion_def z_preprocess_def z_discriminatedUnion_def
      map_of_put_field)

lemma union_enabled_false:
  assumes "normalize_enabled h val = JObj fs" and "map_of fs ''enabled'' = Some (JBool False)"
  shows "zodDiscriminatedEnabledUnion shape h val = Inr (JObj [(''enabled'', JBool False)])"
proof -
  have "''enabled'' \<in> fst ` set fs"
    using assms(2) by (auto simp: rev_image_eqI dest!: map_of_SomeD)
  with assms show ?thesis
    by (simp add: zodDiscriminatedEnabledUnion_def z_preprocess_def z_discriminatedUnion_def
        z_object_def object_pairs_def)
qed

text \<open>
  Claim C9. The function that \<open>zodDiscriminatedEnabledUnion\<close> gives to \<open>z.preprocess\<close>
  always produces an object whose \<open>enabled\<close> is a real boolean, and the discriminated
  union validates that object. An input whose \<open>enabled\<close> is already a boolean is kept as
  it is (the object passed on is a copy of its own properties). An input whose \<open>enabled\<close>
  is the string \<open>'true'\<close>, or the boolean \<open>true\<close>, is validated with \<open>enabled: true\<close> against
  the object schema that requires the fields of the shape. An input whose \<open>enabled\<close> is
  the string \<open>'false'\<close>, or the boolean \<open>false\<close>, validates as \<open>{enabled: false}\<close>.
\<close>

theorem enabled_flag_normalized:
  "(\<exists>fs b. normalize_enabled h val = JObj fs \<and> map_of fs ''enabled'' = Some (JBool b))
 \<and> (js_read h val ''enabled'' = JBool b \<longrightarrow>
      normalize_enabled h val = JObj (own_props h val)
    \<and> map_of (own_props h val) ''enabled'' = Some (JBool b))
 \<and> (js_read h val ''enabled'' = JStr ''true'' \<or> js_read h val ''enabled'' = JBool True \<longrightarrow>
      normalize_enabled h val = JObj (put_field (own_props h val) ''enabled'' (JBool True))
    \<and> zodDiscriminatedEnabledUnion shape h val =
        z_object (put_field shape ''enabled'' (ZLiteral (JBool True))) h
          (JObj (put_field (own_props h val) ''enabled'' (JBool True))))
 \<and> (js_read h val ''enabled'' = JStr ''false'' \<or> js_read h val ''enabled'' = JBool False \<longrightarrow>
      normalize_enabled h val = JObj (put_field (own_props h val) ''enabled'' (JBool False))
    \<and> zodDiscriminatedEnabledUnion shape h val = Inr (JObj [(''enabled'', JBool False)]))"
proof (intro conjI impI)
  show "\<exists>fs b. normalize_enabled h val = JObj fs \<and> map_of fs ''enabled'' = Some (JBool b)"
  proof (cases "objectHasEnabledProperty h val")
    case False
    then have "normalize_enabled h val = JObj [(''enabled'', JBool False)]"
      by (simp add: normalize_enabled_def)
    then show ?thesis by auto
  next
    case True
    then show ?thesis
      by (cases "js_read h val ''enabled''") (auto simp: normalize_enabled_def map_of_put_field)
  qed
next
  assume b: "js_read h val ''enabled'' = JBool b"
  from read_enabled [OF b] have has: "objectHasEnabledProperty h val"
    and own: "map_of (own_props h val) ''enabled'' = Some (JBool b)"
    by simp_all
  from has b put_field_same [OF own]
  show "normalize_enabled h val = JObj (own_props h val)"
    by (simp add: normalize_enabled_def)
  from own show "map_of (own_props h val) ''enabled'' = Some (JBool b)" .
next
  assume t: "js_read h val ''enabled'' = JStr ''true'' \<or> js_read h val ''enabled'' = JBool True"
  then have has: "objectHasEnabledProperty h val"
    using read_enabled [of h val] by blast
  with t show n: "normalize_enabled h val =
      JObj (put_field (own_props h val) ''enabled'' (JBool True))"
    by (auto simp: normalize_enabled_def)
  show "zodDiscriminatedEnabledUnion shape h val =
        z_object (put_field shape ''enabled'' (ZLiteral (JBool True))) h
          (JObj (put_field (own_props h val) ''enabled'' (JBool True)))"
    by (rule union_enabled_true [OF n]) (simp add: map_of_put_field)
next
  assume f: "js_read h val ''enabled'' = JStr ''false'' \<or> js_read h val ''enabled'' = JBool False"
  then have has: "objectHasEnabledProperty h val"
    using read_enabled [of h val] by blast
  with f show n: "normalize_enabled h val =
      JObj (put_field (own_props h val) ''enabled'' (JBool False))"
    by (auto simp: normalize_enabled_def)
  show "zodDiscriminatedEnabledUnion shape h val = Inr (JObj [(''enabled'', JBool False)])"
    by (rule union_enabled_false [OF n]) (simp add: map_of_put_field)
qed

theorem enabled_flag_normalized_witness:
  "js_read (heap test_state) (JObj [(''enabled'', JBool True), (''name'', JStr ''x'')])
     ''enabled'' = JBool True
 \<and> normalize_enabled (heap test_state)
      (JObj [(''enabled'', JBool True), (''name'', JStr ''x'')]) =
     JObj [(''enabled'', JBool True), (''name'', JStr ''x'')]
 \<and> js_read (heap test_state)
      (JObj [(''enabled'', JStr ''true''), (''name'', JStr ''x''), (''other'', JStr ''y'')])
      ''enabled'' = JStr ''true''
 \<and> zodDiscriminatedEnabledUnion [(''name'', ZSchema accept_all)] (heap test_state)
      (JObj [(''enabled'', JStr ''true''), (''name'', JStr ''x''), (''other'', JStr ''y'')]) =
     Inr (JObj [(''name'', JStr ''x''), (''enabled'', JBool True)])
 \<and> zodDiscriminatedEnabledUnion [(''name'', ZSchema reject_all)] (heap test_state)
      (JObj [(''enabled'', JStr ''true''), (''name'', JStr ''x''), (''other'', JStr ''y'')]) =
     Inl (ZodError [''Required''])
 \<and> js_read (heap test_state) (JObj [(''enabled'', JStr ''false''), (''name'', JStr ''x'')])
      ''enabled'' = JStr ''false''
 \<and> zodDiscriminatedEnabledUnion [(''name'', ZSchema reject_all)] (heap test_state)
      (JObj [(''enabled'', JStr ''false''), (''name'', JStr ''x'')]) =
     Inr (JObj [(''enabled'', JBool False)])"
  using
    enabled_flag_normalized [of "heap test_state"
      "JObj [(''enabled'', JBool True), (''name'', JStr ''x'')]" True]
    enabled_flag_normalized [of "heap test_state"
      "JObj [(''enabled'', JStr ''true''), (''name'', JStr ''x''), (''other'', JStr ''y'')]"
      _ "[(''name'', ZSchema accept_all)]"]
    enabled_flag_normalized [of "heap test_state"
      "JObj [(''enabled'', JStr ''true''), (''name'', JStr ''x''), (''other'', JStr ''y'')]"
      _ "[(''name'', ZSchema reject_all)]"]
    enabled_flag_normalized [of "heap test_state"
      "JObj [(''enabled'', JStr ''false''), (''name'', JStr ''x'')]"
      _ "[(''name'', ZSchema reject_all)]"]
  by (simp add: z_object_def object_pairs_def accept_all_def reject_all_def)

section \<open>The field-path object builder\<close>

subsection \<open>Array indices\<close>








subsection \<open>Objects and arrays as containers\<close>

















subsection \<open>Setting and reading one path\<close>














subsection \<open>Keys that \<open>get\<close> and \<open>set\<close> walk alike\<close>










subsection \<open>The object while it is built\<close>















subsection \<open>The built object\<close>




end
